theory Spec2Isabelle
  imports Complex_Main
begin

section \<open>Columns, error codes and graph objects\<close>

text \<open>
  The error codes and data-type tags come from the columnar library the code is built on;
  only the ones \<^verbatim>\<open>cugraph.cu\<close> names are listed. \<open>GDF_SUCCESS\<close> is the value 0.
\<close>

datatype gdf_error =
    GDF_SUCCESS
  | GDF_CUDA_ERROR
  | GDF_UNSUPPORTED_DTYPE
  | GDF_COLUMN_SIZE_MISMATCH
  | GDF_COLUMN_SIZE_TOO_BIG
  | GDF_DATASET_EMPTY
  | GDF_VALIDITY_UNSUPPORTED
  | GDF_INVALID_API_CALL

datatype gdf_dtype =
    GDF_invalid
  | GDF_INT8
  | GDF_INT16
  | GDF_INT32
  | GDF_INT64
  | GDF_FLOAT32
  | GDF_FLOAT64

text \<open>
  A \<^verbatim>\<open>gdf_column\<close> is a pointer to a buffer, a validity mask, a length and a type tag.
  The buffer is \<open>data\<close> (\<open>None\<close> is the null pointer); the \<^verbatim>\<open>size\<close> field is the
  length of that buffer (\<open>col_size\<close>, 0 for a null pointer).
\<close>

record 'a gdf_column =
  data :: "'a list option"
  valid :: "bool list option"
  dtype :: gdf_dtype
  null_count :: nat

definition buf :: "'a gdf_column \<Rightarrow> 'a list" where
  "buf c = (case data c of None \<Rightarrow> [] | Some xs \<Rightarrow> xs)"

definition col_size :: "'a gdf_column \<Rightarrow> nat" where
  "col_size c = length (buf c)"

text \<open>\<^verbatim>\<open>gdf_column_view(col, data, valid, size, dtype)\<close> overwrites the column; the null
  count of a fresh view is 0.\<close>

definition gdf_column_view ::
  "'a list option \<Rightarrow> bool list option \<Rightarrow> gdf_dtype \<Rightarrow> 'a gdf_column" where
  "gdf_column_view d v t = \<lparr>data = d, valid = v, dtype = t, null_count = 0\<rparr>"

definition cpy_column_view :: "'a gdf_column \<Rightarrow> 'a gdf_column" where
  "cpy_column_view c = gdf_column_view (data c) (valid c) (dtype c)"

section \<open>Renumbering\<close>

text \<open>
  The dense ids go to arrays of \<^verbatim>\<open>int32_t\<close>, and the size field of a column is a 32-bit
  signed value as well: a number that is stored there keeps its low 32 bits, read as a
  signed value.
\<close>

definition to_int32 :: "int \<Rightarrow> int" where
  "to_int32 x = (x + 2147483648) mod 4294967296 - 2147483648"

text \<open>
  An input column is well formed: its size field is the length of its buffer
  (\<open>col_size\<close>). For a column that \<^verbatim>\<open>gdf_renumber_vertices\<close> makes, the size field is what
  \<^verbatim>\<open>gdf_column_view\<close> is handed, narrowed to 32 bits; there it is a field of its own.
\<close>

record 'a gdf_column_sized = "'a gdf_column" +
  size_field :: int

definition gdf_column_view_sized ::
  "'a list option \<Rightarrow> bool list option \<Rightarrow> int \<Rightarrow> gdf_dtype \<Rightarrow> 'a gdf_column_sized" where
  "gdf_column_view_sized d v n t =
     \<lparr>data = d, valid = v, dtype = t, null_count = 0, size_field = to_int32 n\<rparr>"

definition sized_buf :: "'a gdf_column_sized \<Rightarrow> 'a list" where
  "sized_buf c = (case data c of None \<Rightarrow> [] | Some xs \<Rightarrow> xs)"

text \<open>
  The macros \<^verbatim>\<open>ALLOC_TRY\<close> and \<^verbatim>\<open>ALLOC_FREE_TRY\<close> (\<^verbatim>\<open>rmm_utils.h\<close>) are not among the sources:
  they leave the function with an error code when the memory manager fails. What the
  \<open>k\<close>-th of them in a call does is a parameter (\<open>GDF_SUCCESS\<close>: it falls through;
  another code: it returns that code), and so are the contents of the \<open>k\<close>-th fresh
  buffer, given its number of entries, and the outcome of the device work of
  \<^verbatim>\<open>cugraph::renumber_vertices\<close>.
\<close>

record memory_outcomes =
  alloc_try :: "nat \<Rightarrow> gdf_error"
  fresh :: "nat \<Rightarrow> nat \<Rightarrow> int list"
  alloc_free_try :: "nat \<Rightarrow> gdf_error"
  renumber_status :: gdf_error

text \<open>
  Modelled from the spec: \<^verbatim>\<open>cugraph::renumber_vertices\<close> (\<^verbatim>\<open>renumber.cuh\<close>) is not among
  the sources. The spec's algorithm: collect the distinct identifiers of either array,
  order them by original id, and give every identifier its position in that order; the
  numbering map lists the original identifier of every dense id. The call instantiates
  the output arrays with \<^verbatim>\<open>int32_t\<close>, so a dense id is stored as \<open>to_int32\<close> of the position;
  the number of distinct identifiers goes to a \<^verbatim>\<open>size_t\<close>, which holds it. Device work that
  fails is reported with its error code and the output arrays are left as they were.
\<close>

definition numbering :: "int list \<Rightarrow> int list \<Rightarrow> int list" where
  "numbering src dst = sort (remdups (src @ dst))"

fun dense_id :: "int list \<Rightarrow> int \<Rightarrow> nat" where
  "dense_id [] v = 0"
| "dense_id (x # xs) v = (if x = v then 0 else Suc (dense_id xs v))"

definition renumber_vertices ::
  "gdf_error \<Rightarrow> nat \<Rightarrow> int list \<Rightarrow> int list \<Rightarrow> int list \<Rightarrow> int list
     \<Rightarrow> gdf_error \<times> int list \<times> int list \<times> nat \<times> int list" where
  "renumber_vertices status n src dst src_renumbered dst_renumbered =
     (if status \<noteq> GDF_SUCCESS then (status, src_renumbered, dst_renumbered, 0, [])
      else
        (let m = numbering (take n src) (take n dst)
         in (GDF_SUCCESS,
             map (\<lambda>v. to_int32 (int (dense_id m v))) (take n src),
             map (\<lambda>v. to_int32 (int (dense_id m v))) (take n dst),
             length m, m)))"

text \<open>
  \<^verbatim>\<open>gdf_renumber_vertices\<close> of \<^verbatim>\<open>cugraph.cu\<close>. The three output columns are passed in and
  returned; a failed \<^verbatim>\<open>GDF_REQUIRE\<close> returns them untouched. The two dense-id columns are
  views of their fresh buffers before \<^verbatim>\<open>cugraph::renumber_vertices\<close> runs, so they stay
  views on the later error returns. The size of the numbering map is the \<^verbatim>\<open>size_t\<close>
  \<^verbatim>\<open>new_size\<close>, narrowed by \<^verbatim>\<open>gdf_column_view\<close>. The copy of this function in the file that
  holds \<^verbatim>\<open>gdf_pagerank\<close> has the same four input tests and the same two branches; it
  allocates its output columns itself and tags the numbering map \<open>GDF_INT32\<close>.
\<close>

definition gdf_renumber_vertices ::
  "memory_outcomes \<Rightarrow> int gdf_column \<Rightarrow> int gdf_column
     \<Rightarrow> int gdf_column_sized \<Rightarrow> int gdf_column_sized \<Rightarrow> int gdf_column_sized
     \<Rightarrow> gdf_error \<times> int gdf_column_sized \<times> int gdf_column_sized \<times> int gdf_column_sized" where
  "gdf_renumber_vertices rmm src dst src_renumbered dst_renumbered numbering_map =
     (if col_size src \<noteq> col_size dst then
        (GDF_COLUMN_SIZE_MISMATCH, src_renumbered, dst_renumbered, numbering_map)
      else if dtype src \<noteq> dtype dst then
        (GDF_UNSUPPORTED_DTYPE, src_renumbered, dst_renumbered, numbering_map)
      else if \<not> (dtype src = GDF_INT32 \<or> dtype src = GDF_INT64) then
        (GDF_UNSUPPORTED_DTYPE, src_renumbered, dst_renumbered, numbering_map)
      else if \<not> col_size src > 0 then
        (GDF_DATASET_EMPTY, src_renumbered, dst_renumbered, numbering_map)
      else if dtype src = GDF_INT32 then
        (if alloc_try rmm 0 \<noteq> GDF_SUCCESS then
           (alloc_try rmm 0, src_renumbered, dst_renumbered, numbering_map)
         else
           (let src1 = gdf_column_view_sized (Some (fresh rmm 0 (col_size src))) (valid src)
                         (int (col_size src)) (dtype src)
            in if alloc_try rmm 1 \<noteq> GDF_SUCCESS then
                 (alloc_try rmm 1, src1, dst_renumbered, numbering_map)
               else
                 (let dst1 = gdf_column_view_sized (Some (fresh rmm 1 (col_size src))) (valid dst)
                               (int (col_size dst)) (dtype dst)
                  in case renumber_vertices (renumber_status rmm) (col_size src) (buf src)
                            (buf dst) (fresh rmm 0 (col_size src)) (fresh rmm 1 (col_size src)) of
                       (err, sr, dr, new_size, tmp) \<Rightarrow>
                         if err \<noteq> GDF_SUCCESS then
                           (err, src1\<lparr>data := Some sr\<rparr>, dst1\<lparr>data := Some dr\<rparr>, numbering_map)
                         else
                           (GDF_SUCCESS, src1\<lparr>data := Some sr\<rparr>, dst1\<lparr>data := Some dr\<rparr>,
                            gdf_column_view_sized (Some tmp) None (int new_size) (dtype src)))))
      else if dtype src = GDF_INT64 then
        (if alloc_try rmm 0 \<noteq> GDF_SUCCESS then
           (alloc_try rmm 0, src_renumbered, dst_renumbered, numbering_map)
         else
           (let src1 = gdf_column_view_sized (Some (fresh rmm 0 (col_size src))) (valid src)
                         (int (col_size src)) GDF_INT32
            in if alloc_try rmm 1 \<noteq> GDF_SUCCESS then
                 (alloc_try rmm 1, src1, dst_renumbered, numbering_map)
               else
                 (let dst1 = gdf_column_view_sized (Some (fresh rmm 1 (col_size src))) (valid dst)
                               (int (col_size dst)) GDF_INT32
                  in case renumber_vertices (renumber_status rmm) (col_size src) (buf src)
                            (buf dst) (fresh rmm 0 (col_size src)) (fresh rmm 1 (col_size src)) of
                       (err, sr, dr, new_size, tmp) \<Rightarrow>
                         if err \<noteq> GDF_SUCCESS then
                           (err, src1\<lparr>data := Some sr\<rparr>, dst1\<lparr>data := Some dr\<rparr>, numbering_map)
                         else if new_size > 0x7fffffff then
                           (if alloc_free_try rmm 0 \<noteq> GDF_SUCCESS then
                              (alloc_free_try rmm 0, src1\<lparr>data := Some sr\<rparr>,
                               dst1\<lparr>data := Some dr\<rparr>, numbering_map)
                            else if alloc_free_try rmm 1 \<noteq> GDF_SUCCESS then
                              (alloc_free_try rmm 1, src1\<lparr>data := Some sr\<rparr>,
                               dst1\<lparr>data := Some dr\<rparr>, numbering_map)
                            else
                              (GDF_COLUMN_SIZE_TOO_BIG, src1\<lparr>data := Some sr\<rparr>,
                               dst1\<lparr>data := Some dr\<rparr>, numbering_map))
                         else
                           (GDF_SUCCESS, src1\<lparr>data := Some sr\<rparr>, dst1\<lparr>data := Some dr\<rparr>,
                            gdf_column_view_sized (Some tmp) None (int new_size) (dtype src)))))
      else (GDF_UNSUPPORTED_DTYPE, src_renumbered, dst_renumbered, numbering_map))"

section \<open>Graph objects\<close>

text \<open>
  A graph holds up to three representations, each behind a nullable pointer. The members
  of a freshly allocated \<^verbatim>\<open>gdf_edge_list\<close> or \<^verbatim>\<open>gdf_adj_list\<close> start as null pointers.
  Vertex identifiers are the integers stored in the id columns; edge weights have the
  type \<open>'w\<close>.
\<close>

record 'w gdf_edge_list =
  src_indices :: "int gdf_column"
  dest_indices :: "int gdf_column"
  edge_data :: "'w gdf_column option"
  ownership :: nat

record 'w gdf_adj_list =
  offsets :: "int gdf_column"
  indices :: "int gdf_column"
  edge_data :: "'w gdf_column option"
  ownership :: nat

record 'w gdf_graph =
  edgeList :: "'w gdf_edge_list option"
  adjList :: "'w gdf_adj_list option"
  transposedAdjList :: "'w gdf_adj_list option"

text \<open>\<^verbatim>\<open>gdf_adj_list_view\<close> and \<^verbatim>\<open>gdf_edge_list_view\<close> of \<^verbatim>\<open>cugraph.cu\<close>. The size test on
  the edge data comes after the representation has been attached, and leaves it
  attached.\<close>

definition gdf_adj_list_view ::
  "'w gdf_graph \<Rightarrow> int gdf_column \<Rightarrow> int gdf_column \<Rightarrow> 'w gdf_column option
     \<Rightarrow> gdf_error \<times> 'w gdf_graph" where
  "gdf_adj_list_view graph offs inds edata =
     (if \<not> (edgeList graph = None \<and> adjList graph = None \<and> transposedAdjList graph = None) then
        (GDF_INVALID_API_CALL, graph)
      else if \<not> null_count offs = 0 then (GDF_VALIDITY_UNSUPPORTED, graph)
      else if \<not> null_count inds = 0 then (GDF_VALIDITY_UNSUPPORTED, graph)
      else if \<not> dtype offs = dtype inds then (GDF_UNSUPPORTED_DTYPE, graph)
      else if \<not> (dtype offs = GDF_INT32 \<or> dtype offs = GDF_INT64) then
        (GDF_UNSUPPORTED_DTYPE, graph)
      else if \<not> col_size offs > 0 then (GDF_DATASET_EMPTY, graph)
      else
        (let al = \<lparr>offsets = cpy_column_view offs, indices = cpy_column_view inds,
                   gdf_adj_list.edge_data = None, gdf_adj_list.ownership = 0\<rparr>
         in case edata of
              Some ed \<Rightarrow>
                if \<not> col_size inds = col_size ed then
                  (GDF_COLUMN_SIZE_MISMATCH, graph\<lparr>adjList := Some al\<rparr>)
                else
                  (GDF_SUCCESS,
                   graph\<lparr>adjList := Some (al\<lparr>gdf_adj_list.edge_data := Some (cpy_column_view ed)\<rparr>)\<rparr>)
            | None \<Rightarrow> (GDF_SUCCESS, graph\<lparr>adjList := Some al\<rparr>)))"

definition gdf_edge_list_view ::
  "'w gdf_graph \<Rightarrow> int gdf_column \<Rightarrow> int gdf_column \<Rightarrow> 'w gdf_column option
     \<Rightarrow> gdf_error \<times> 'w gdf_graph" where
  "gdf_edge_list_view graph srcs dests edata =
     (if \<not> (edgeList graph = None \<and> adjList graph = None \<and> transposedAdjList graph = None) then
        (GDF_INVALID_API_CALL, graph)
      else if \<not> col_size srcs = col_size dests then (GDF_COLUMN_SIZE_MISMATCH, graph)
      else if \<not> dtype srcs = dtype dests then (GDF_UNSUPPORTED_DTYPE, graph)
      else if \<not> (dtype srcs = GDF_INT32 \<or> dtype srcs = GDF_INT64) then
        (GDF_UNSUPPORTED_DTYPE, graph)
      else if \<not> col_size srcs > 0 then (GDF_DATASET_EMPTY, graph)
      else if \<not> null_count srcs = 0 then (GDF_VALIDITY_UNSUPPORTED, graph)
      else if \<not> null_count dests = 0 then (GDF_VALIDITY_UNSUPPORTED, graph)
      else
        (let el = \<lparr>src_indices = cpy_column_view srcs, dest_indices = cpy_column_view dests,
                   gdf_edge_list.edge_data = None, gdf_edge_list.ownership = 0\<rparr>
         in case edata of
              Some ed \<Rightarrow>
                if \<not> col_size srcs = col_size ed then
                  (GDF_COLUMN_SIZE_MISMATCH, graph\<lparr>edgeList := Some el\<rparr>)
                else
                  (GDF_SUCCESS,
                   graph\<lparr>edgeList := Some (el\<lparr>gdf_edge_list.edge_data := Some (cpy_column_view ed)\<rparr>)\<rparr>)
            | None \<Rightarrow> (GDF_SUCCESS, graph\<lparr>edgeList := Some el\<rparr>)))"

section \<open>Edge list to compressed sparse rows\<close>

text \<open>
  Modelled from the spec: \<^verbatim>\<open>ConvertCOOtoCSR\<close> and \<^verbatim>\<open>ConvertCOOtoCSR_weighted\<close>
  (\<^verbatim>\<open>COOtoCSR.cuh\<close>) are not among the sources. The spec's algorithm is a counting sort by
  the grouping key: count the edges of every vertex, take the prefix sum of the counts as
  \<open>offsets\<close>, then scatter every edge's index (and weight) to the position its vertex's
  write cursor shows, the cursors starting at the offsets. The call passes no vertex
  count, so the converter derives it: the largest identifier plus one. An empty edge
  list is reported (\<open>GDF_DATASET_EMPTY\<close>); input outside the contract (a negative
  identifier, an array shorter than the edge count) ends in a fatal assertion, which is
  \<open>None\<close> here. A slot of the output that no edge was scattered to keeps what the fresh
  buffer held, an unspecified value (\<open>the None\<close>).
\<close>

record CSR_Result =
  csr_size :: nat
  nnz :: nat
  rowOffsets :: "int list"
  colIndices :: "int list"

record 'w CSR_Result_Weighted = CSR_Result +
  edgeWeights :: "'w list"

definition degree_counts :: "nat \<Rightarrow> nat list \<Rightarrow> nat list" where
  "degree_counts n keys = fold (\<lambda>s c. c[s := Suc (c ! s)]) keys (replicate n 0)"

fun prefix_sum :: "nat \<Rightarrow> nat list \<Rightarrow> nat list" where
  "prefix_sum acc [] = [acc]"
| "prefix_sum acc (c # cs) = acc # prefix_sum (acc + c) cs"

fun scatter :: "(nat \<times> 'a) list \<Rightarrow> nat list \<Rightarrow> 'a option list \<Rightarrow> 'a option list" where
  "scatter [] cursor out = out"
| "scatter ((s, d) # es) cursor out =
     scatter es (cursor[s := Suc (cursor ! s)]) (out[cursor ! s := Some d])"

definition vertex_count :: "int list \<Rightarrow> int list \<Rightarrow> nat" where
  "vertex_count src dst = Suc (nat (fold max (src @ dst) 0))"

definition ConvertCOOtoCSR_weighted ::
  "int list \<Rightarrow> int list \<Rightarrow> 'w list \<Rightarrow> nat \<Rightarrow> (gdf_error \<times> 'w CSR_Result_Weighted) option" where
  "ConvertCOOtoCSR_weighted sources destinations edgeWeights_in n_edges =
     (if length sources < n_edges \<or> length destinations < n_edges
         \<or> length edgeWeights_in < n_edges then None
      else if n_edges = 0 then
        Some (GDF_DATASET_EMPTY,
              \<lparr>csr_size = 0, nnz = 0, rowOffsets = [], colIndices = [], edgeWeights = []\<rparr>)
      else
        (let s = take n_edges sources; d = take n_edges destinations;
             w = take n_edges edgeWeights_in
         in if list_ex (\<lambda>x. x < 0) (s @ d) then None
            else
              (let n = vertex_count s d;
                   keys = map nat s;
                   offs = prefix_sum 0 (degree_counts n keys);
                   cols = scatter (zip keys d) (butlast offs) (replicate n_edges None);
                   vals = scatter (zip keys w) (butlast offs) (replicate n_edges None)
               in Some (GDF_SUCCESS,
                        \<lparr>csr_size = n, nnz = n_edges, rowOffsets = map int offs,
                         colIndices = map the cols, edgeWeights = map the vals\<rparr>))))"

definition ConvertCOOtoCSR ::
  "int list \<Rightarrow> int list \<Rightarrow> nat \<Rightarrow> (gdf_error \<times> CSR_Result) option" where
  "ConvertCOOtoCSR sources destinations n_edges =
     (if length sources < n_edges \<or> length destinations < n_edges then None
      else if n_edges = 0 then
        Some (GDF_DATASET_EMPTY, \<lparr>csr_size = 0, nnz = 0, rowOffsets = [], colIndices = []\<rparr>)
      else
        (let s = take n_edges sources; d = take n_edges destinations
         in if list_ex (\<lambda>x. x < 0) (s @ d) then None
            else
              (let n = vertex_count s d;
                   keys = map nat s;
                   offs = prefix_sum 0 (degree_counts n keys);
                   cols = scatter (zip keys d) (butlast offs) (replicate n_edges None)
               in Some (GDF_SUCCESS,
                        \<lparr>csr_size = n, nnz = n_edges, rowOffsets = map int offs,
                         colIndices = map the cols\<rparr>))))"

text \<open>
  \<^verbatim>\<open>gdf_add_adj_list_impl\<close> and \<^verbatim>\<open>gdf_add_adj_list\<close> of \<^verbatim>\<open>cugraph.cu\<close>. The \<^verbatim>\<open>int status\<close> of the
  source is the converter's error code, 0 being \<open>GDF_SUCCESS\<close>; the columns are attached
  before the status is looked at. \<open>None\<close> is a call that does not return (the converter's
  fatal assertion, or a null pointer dereferenced).
\<close>

definition gdf_add_adj_list_impl :: "'w gdf_graph \<Rightarrow> (gdf_error \<times> 'w gdf_graph) option" where
  "gdf_add_adj_list_impl graph =
     (if adjList graph = None then
        (case edgeList graph of
           None \<Rightarrow> Some (GDF_INVALID_API_CALL, graph)
         | Some el \<Rightarrow>
             (let n_edges = col_size (src_indices el) in
              case gdf_edge_list.edge_data el of
                Some ed \<Rightarrow>
                  (case ConvertCOOtoCSR_weighted (buf (src_indices el)) (buf (dest_indices el))
                          (buf ed) n_edges of
                     None \<Rightarrow> None
                   | Some (status, adj_list) \<Rightarrow>
                       (let al = \<lparr>offsets = gdf_column_view (Some (rowOffsets adj_list)) None
                                              (dtype (src_indices el)),
                                  indices = gdf_column_view (Some (colIndices adj_list)) None
                                              (dtype (src_indices el)),
                                  gdf_adj_list.edge_data =
                                    Some (gdf_column_view (Some (edgeWeights adj_list)) None (dtype ed)),
                                  gdf_adj_list.ownership = 1\<rparr>
                        in if status \<noteq> GDF_SUCCESS then
                             Some (GDF_CUDA_ERROR, graph\<lparr>adjList := Some al\<rparr>)
                           else Some (GDF_SUCCESS, graph\<lparr>adjList := Some al\<rparr>)))
              | None \<Rightarrow>
                  (case ConvertCOOtoCSR (buf (src_indices el)) (buf (dest_indices el)) n_edges of
                     None \<Rightarrow> None
                   | Some (status, adj_list) \<Rightarrow>
                       (let al = \<lparr>offsets = gdf_column_view (Some (rowOffsets adj_list)) None
                                              (dtype (src_indices el)),
                                  indices = gdf_column_view (Some (colIndices adj_list)) None
                                              (dtype (src_indices el)),
                                  gdf_adj_list.edge_data = None,
                                  gdf_adj_list.ownership = 1\<rparr>
                        in if status \<noteq> GDF_SUCCESS then
                             Some (GDF_CUDA_ERROR, graph\<lparr>adjList := Some al\<rparr>)
                           else Some (GDF_SUCCESS, graph\<lparr>adjList := Some al\<rparr>)))))
      else Some (GDF_SUCCESS, graph))"

definition gdf_add_adj_list :: "'w gdf_graph \<Rightarrow> (gdf_error \<times> 'w gdf_graph) option" where
  "gdf_add_adj_list graph =
     (if adjList graph \<noteq> None then Some (GDF_SUCCESS, graph)
      else
        (case edgeList graph of
           None \<Rightarrow> Some (GDF_INVALID_API_CALL, graph)
         | Some el \<Rightarrow>
             if \<not> dtype (src_indices el) = GDF_INT32 then Some (GDF_UNSUPPORTED_DTYPE, graph)
             else
               (case gdf_edge_list.edge_data el of
                  Some ed \<Rightarrow>
                    if dtype ed = GDF_FLOAT32 then gdf_add_adj_list_impl graph
                    else if dtype ed = GDF_FLOAT64 then gdf_add_adj_list_impl graph
                    else Some (GDF_UNSUPPORTED_DTYPE, graph)
                | None \<Rightarrow> gdf_add_adj_list_impl graph)))"

section \<open>Edge list from rows, and the transposed rows\<close>

text \<open>
  \<^verbatim>\<open>gdf_add_edge_list\<close>, the same in both files. \<^verbatim>\<open>cugraph::offsets_to_indices\<close> is not among
  the sources and the spec does not describe it: it is the parameter \<open>offsets_to_indices\<close>,
  which gets the offsets, the vertex count and the length of the buffer it fills.
\<close>

definition gdf_add_edge_list ::
  "(int list \<Rightarrow> int \<Rightarrow> nat \<Rightarrow> int list) \<Rightarrow> 'w gdf_graph \<Rightarrow> gdf_error \<times> 'w gdf_graph" where
  "gdf_add_edge_list offsets_to_indices graph =
     (if edgeList graph = None then
        (case adjList graph of
           None \<Rightarrow> (GDF_INVALID_API_CALL, graph)
         | Some al \<Rightarrow>
             (let d_src = offsets_to_indices (buf (offsets al)) (int (col_size (offsets al)) - 1)
                            (col_size (indices al));
                  el = \<lparr>src_indices = gdf_column_view (Some d_src) None (dtype (indices al)),
                        dest_indices = cpy_column_view (indices al),
                        gdf_edge_list.edge_data =
                          (case gdf_adj_list.edge_data al of
                             None \<Rightarrow> None
                           | Some ed \<Rightarrow> Some (cpy_column_view ed)),
                        gdf_edge_list.ownership = 2\<rparr>
              in (GDF_SUCCESS, graph\<lparr>edgeList := Some el\<rparr>)))
      else (GDF_SUCCESS, graph))"

text \<open>\<^verbatim>\<open>gdf_add_transposed_adj_list_impl\<close> and \<^verbatim>\<open>gdf_add_transposed_adj_list\<close> of
  \<^verbatim>\<open>cugraph.cu\<close>. The result of \<^verbatim>\<open>gdf_add_edge_list\<close> is not looked at; with no edge list
  after it the next line dereferences a null pointer (\<open>None\<close>).\<close>

definition gdf_add_transposed_adj_list_impl ::
  "'w gdf_graph \<Rightarrow> (gdf_error \<times> 'w gdf_graph) option" where
  "gdf_add_transposed_adj_list_impl graph =
     (if transposedAdjList graph = None then
        (case edgeList graph of
           None \<Rightarrow> Some (GDF_INVALID_API_CALL, graph)
         | Some el \<Rightarrow>
             (let n_edges = col_size (src_indices el) in
              case gdf_edge_list.edge_data el of
                Some ed \<Rightarrow>
                  (case ConvertCOOtoCSR_weighted (buf (dest_indices el)) (buf (src_indices el))
                          (buf ed) n_edges of
                     None \<Rightarrow> None
                   | Some (status, adj_list) \<Rightarrow>
                       (let al = \<lparr>offsets = gdf_column_view (Some (rowOffsets adj_list)) None
                                              (dtype (src_indices el)),
                                  indices = gdf_column_view (Some (colIndices adj_list)) None
                                              (dtype (src_indices el)),
                                  gdf_adj_list.edge_data =
                                    Some (gdf_column_view (Some (edgeWeights adj_list)) None (dtype ed)),
                                  gdf_adj_list.ownership = 1\<rparr>
                        in if status \<noteq> GDF_SUCCESS then
                             Some (GDF_CUDA_ERROR, graph\<lparr>transposedAdjList := Some al\<rparr>)
                           else Some (GDF_SUCCESS, graph\<lparr>transposedAdjList := Some al\<rparr>)))
              | None \<Rightarrow>
                  (case ConvertCOOtoCSR (buf (dest_indices el)) (buf (src_indices el)) n_edges of
                     None \<Rightarrow> None
                   | Some (status, adj_list) \<Rightarrow>
                       (let al = \<lparr>offsets = gdf_column_view (Some (rowOffsets adj_list)) None
                                              (dtype (src_indices el)),
                                  indices = gdf_column_view (Some (colIndices adj_list)) None
                                              (dtype (src_indices el)),
                                  gdf_adj_list.edge_data = None,
                                  gdf_adj_list.ownership = 1\<rparr>
                        in if status \<noteq> GDF_SUCCESS then
                             Some (GDF_CUDA_ERROR, graph\<lparr>transposedAdjList := Some al\<rparr>)
                           else Some (GDF_SUCCESS, graph\<lparr>transposedAdjList := Some al\<rparr>)))))
      else Some (GDF_SUCCESS, graph))"

definition gdf_add_transposed_adj_list ::
  "(int list \<Rightarrow> int \<Rightarrow> nat \<Rightarrow> int list) \<Rightarrow> 'w gdf_graph \<Rightarrow> (gdf_error \<times> 'w gdf_graph) option" where
  "gdf_add_transposed_adj_list offsets_to_indices graph =
     (let graph1 = (if edgeList graph = None then snd (gdf_add_edge_list offsets_to_indices graph)
                    else graph)
      in case edgeList graph1 of
           None \<Rightarrow> None
         | Some el \<Rightarrow>
             if \<not> dtype (src_indices el) = GDF_INT32 then Some (GDF_UNSUPPORTED_DTYPE, graph1)
             else if \<not> dtype (dest_indices el) = GDF_INT32 then Some (GDF_UNSUPPORTED_DTYPE, graph1)
             else
               (case gdf_edge_list.edge_data el of
                  Some ed \<Rightarrow>
                    if dtype ed = GDF_FLOAT32 then gdf_add_transposed_adj_list_impl graph1
                    else if dtype ed = GDF_FLOAT64 then gdf_add_transposed_adj_list_impl graph1
                    else Some (GDF_UNSUPPORTED_DTYPE, graph1)
                | None \<Rightarrow> gdf_add_transposed_adj_list_impl graph1))"

text \<open>\<^verbatim>\<open>gdf_add_transpose_impl\<close> and \<^verbatim>\<open>gdf_add_transpose\<close>, the names the same two functions
  have in the file that holds \<^verbatim>\<open>gdf_pagerank\<close>.\<close>

definition gdf_add_transpose_impl :: "'w gdf_graph \<Rightarrow> (gdf_error \<times> 'w gdf_graph) option" where
  "gdf_add_transpose_impl graph =
     (if transposedAdjList graph = None then
        (case edgeList graph of
           None \<Rightarrow> Some (GDF_INVALID_API_CALL, graph)
         | Some el \<Rightarrow>
             (let n_edges = col_size (src_indices el) in
              case gdf_edge_list.edge_data el of
                Some ed \<Rightarrow>
                  (case ConvertCOOtoCSR_weighted (buf (dest_indices el)) (buf (src_indices el))
                          (buf ed) n_edges of
                     None \<Rightarrow> None
                   | Some (status, adj_list) \<Rightarrow>
                       (let al = \<lparr>offsets = gdf_column_view (Some (rowOffsets adj_list)) None
                                              (dtype (src_indices el)),
                                  indices = gdf_column_view (Some (colIndices adj_list)) None
                                              (dtype (src_indices el)),
                                  gdf_adj_list.edge_data =
                                    Some (gdf_column_view (Some (edgeWeights adj_list)) None (dtype ed)),
                                  gdf_adj_list.ownership = 1\<rparr>
                        in if status \<noteq> GDF_SUCCESS then
                             Some (GDF_CUDA_ERROR, graph\<lparr>transposedAdjList := Some al\<rparr>)
                           else Some (GDF_SUCCESS, graph\<lparr>transposedAdjList := Some al\<rparr>)))
              | None \<Rightarrow>
                  (case ConvertCOOtoCSR (buf (dest_indices el)) (buf (src_indices el)) n_edges of
                     None \<Rightarrow> None
                   | Some (status, adj_list) \<Rightarrow>
                       (let al = \<lparr>offsets = gdf_column_view (Some (rowOffsets adj_list)) None
                                              (dtype (src_indices el)),
                                  indices = gdf_column_view (Some (colIndices adj_list)) None
                                              (dtype (src_indices el)),
                                  gdf_adj_list.edge_data = None,
                                  gdf_adj_list.ownership = 1\<rparr>
                        in if status \<noteq> GDF_SUCCESS then
                             Some (GDF_CUDA_ERROR, graph\<lparr>transposedAdjList := Some al\<rparr>)
                           else Some (GDF_SUCCESS, graph\<lparr>transposedAdjList := Some al\<rparr>)))))
      else Some (GDF_SUCCESS, graph))"

definition gdf_add_transpose ::
  "(int list \<Rightarrow> int \<Rightarrow> nat \<Rightarrow> int list) \<Rightarrow> 'w gdf_graph \<Rightarrow> (gdf_error \<times> 'w gdf_graph) option" where
  "gdf_add_transpose offsets_to_indices graph =
     (let graph1 = (if edgeList graph = None then snd (gdf_add_edge_list offsets_to_indices graph)
                    else graph)
      in case edgeList graph1 of
           None \<Rightarrow> None
         | Some el \<Rightarrow>
             if \<not> dtype (src_indices el) = GDF_INT32 then Some (GDF_UNSUPPORTED_DTYPE, graph1)
             else if \<not> dtype (dest_indices el) = GDF_INT32 then Some (GDF_UNSUPPORTED_DTYPE, graph1)
             else
               (case gdf_edge_list.edge_data el of
                  Some ed \<Rightarrow>
                    if dtype ed = GDF_FLOAT32 then gdf_add_transpose_impl graph1
                    else if dtype ed = GDF_FLOAT64 then gdf_add_transpose_impl graph1
                    else Some (GDF_UNSUPPORTED_DTYPE, graph1)
                | None \<Rightarrow> gdf_add_transpose_impl graph1))"

section \<open>Rank propagation\<close>

text \<open>
  \<^verbatim>\<open>gdf_pagerank_impl\<close> and \<^verbatim>\<open>gdf_pagerank\<close>. The solver \<^verbatim>\<open>cugraph::pagerank\<close> and
  \<^verbatim>\<open>cugraph::HT_matrix_csc_coo\<close> are not among the sources; they are the parameters
  \<open>pagerank_solver\<close> and \<open>HT_matrix_csc_coo\<close>. The solver gets what the call passes
  (among it the literal \<open>false\<close>) and the rank buffer, which holds the caller's values
  when a guess was copied in and is fresh (\<open>None\<close>) otherwise; it returns its status and
  the buffer. The source's messages name the statuses: \<open>-1\<close> bad parameters, \<open>1\<close> the
  tolerance was not reached. The caller's column is an argument and is returned; it is
  never the null pointer, so the test for that is no branch here.
\<close>

type_synonym 'w pagerank_solver =
  "nat \<Rightarrow> nat \<Rightarrow> int list \<Rightarrow> int list \<Rightarrow> 'w list \<Rightarrow> 'w \<Rightarrow> 'w list \<Rightarrow> bool \<Rightarrow> 'w \<Rightarrow> int
     \<Rightarrow> 'w list option \<Rightarrow> int \<times> 'w list"

definition gdf_pagerank_impl ::
  "(int list \<Rightarrow> int \<Rightarrow> nat \<Rightarrow> int list)
     \<Rightarrow> (nat \<Rightarrow> nat \<Rightarrow> int list \<Rightarrow> int list \<Rightarrow> 'w list \<times> 'w list) \<Rightarrow> 'w pagerank_solver
     \<Rightarrow> 'w gdf_graph \<Rightarrow> 'w gdf_column \<Rightarrow> 'w \<Rightarrow> 'w \<Rightarrow> int \<Rightarrow> bool
     \<Rightarrow> (gdf_error \<times> 'w gdf_graph \<times> 'w gdf_column) option" where
  "gdf_pagerank_impl offsets_to_indices HT_matrix_csc_coo pagerank_solver graph pagerank alpha
       tolerance max_iter has_guess =
     (case edgeList graph of
        None \<Rightarrow> Some (GDF_VALIDITY_UNSUPPORTED, graph, pagerank)
      | Some el \<Rightarrow>
          if \<not> col_size (src_indices el) = col_size (dest_indices el) then
            Some (GDF_COLUMN_SIZE_MISMATCH, graph, pagerank)
          else if \<not> dtype (src_indices el) = dtype (dest_indices el) then
            Some (GDF_UNSUPPORTED_DTYPE, graph, pagerank)
          else if \<not> null_count (src_indices el) = 0 then
            Some (GDF_VALIDITY_UNSUPPORTED, graph, pagerank)
          else if \<not> null_count (dest_indices el) = 0 then
            Some (GDF_VALIDITY_UNSUPPORTED, graph, pagerank)
          else if data pagerank = None then Some (GDF_INVALID_API_CALL, graph, pagerank)
          else if \<not> null_count pagerank = 0 then Some (GDF_VALIDITY_UNSUPPORTED, graph, pagerank)
          else if \<not> col_size pagerank > 0 then Some (GDF_INVALID_API_CALL, graph, pagerank)
          else
            (let m = col_size pagerank; n_edges = col_size (src_indices el) in
             case (if transposedAdjList graph = None then
                     map_option snd (gdf_add_transpose offsets_to_indices graph)
                   else Some graph) of
               None \<Rightarrow> None
             | Some graph1 \<Rightarrow>
                 (case transposedAdjList graph1 of
                    None \<Rightarrow> None
                  | Some t \<Rightarrow>
                      (case HT_matrix_csc_coo m n_edges (buf (offsets t)) (buf (indices t)) of
                         (d_val, d_leaf_vector) \<Rightarrow>
                           if has_guess \<and> data pagerank = None then
                             Some (GDF_VALIDITY_UNSUPPORTED, graph1, pagerank)
                           else
                             (case pagerank_solver m n_edges (buf (offsets t)) (buf (indices t))
                                     d_val alpha d_leaf_vector False tolerance max_iter
                                     (if has_guess then Some (buf pagerank) else None) of
                                (status, d_pr) \<Rightarrow>
                                  if status \<noteq> 0 then
                                    (if status = - 1 then Some (GDF_CUDA_ERROR, graph1, pagerank)
                                     else if status = 1 then Some (GDF_CUDA_ERROR, graph1, pagerank)
                                     else Some (GDF_CUDA_ERROR, graph1, pagerank))
                                  else
                                    Some (GDF_SUCCESS, graph1,
                                          pagerank\<lparr>data := Some (take m d_pr)\<rparr>))))))"

definition gdf_pagerank ::
  "(int list \<Rightarrow> int \<Rightarrow> nat \<Rightarrow> int list)
     \<Rightarrow> (nat \<Rightarrow> nat \<Rightarrow> int list \<Rightarrow> int list \<Rightarrow> 'w list \<times> 'w list) \<Rightarrow> 'w pagerank_solver
     \<Rightarrow> 'w gdf_graph \<Rightarrow> 'w gdf_column \<Rightarrow> 'w \<Rightarrow> 'w \<Rightarrow> int \<Rightarrow> bool
     \<Rightarrow> (gdf_error \<times> 'w gdf_graph \<times> 'w gdf_column) option" where
  "gdf_pagerank offsets_to_indices HT_matrix_csc_coo pagerank_solver graph pagerank alpha
       tolerance max_iter has_guess =
     (if \<not> (adjList graph \<noteq> None \<or> edgeList graph \<noteq> None) then
        Some (GDF_INVALID_API_CALL, graph, pagerank)
      else
        (case gdf_add_adj_list graph of
           None \<Rightarrow> None
         | Some (err, graph1) \<Rightarrow>
             if err \<noteq> GDF_SUCCESS then Some (err, graph1, pagerank)
             else
               (case adjList graph1 of
                  None \<Rightarrow> None
                | Some al \<Rightarrow>
                    if \<not> dtype (offsets al) = GDF_INT32 then
                      Some (GDF_UNSUPPORTED_DTYPE, graph1, pagerank)
                    else if \<not> dtype (indices al) = GDF_INT32 then
                      Some (GDF_UNSUPPORTED_DTYPE, graph1, pagerank)
                    else if dtype pagerank = GDF_FLOAT32 then
                      gdf_pagerank_impl offsets_to_indices HT_matrix_csc_coo pagerank_solver graph1
                        pagerank alpha tolerance max_iter has_guess
                    else if dtype pagerank = GDF_FLOAT64 then
                      gdf_pagerank_impl offsets_to_indices HT_matrix_csc_coo pagerank_solver graph1
                        pagerank alpha tolerance max_iter has_guess
                    else Some (GDF_UNSUPPORTED_DTYPE, graph1, pagerank))))"

section \<open>Breadth-first traversal\<close>

text \<open>
  Modelled from the spec: the class \<^verbatim>\<open>cugraph::Bfs\<close> (\<^verbatim>\<open>bfs.cuh\<close>) is not among the sources.
  The spec's traversal shape: a loop over levels with a visited bitmap, a frontier and
  the per-vertex results. Every level marks the frontier visited and, for every frontier
  vertex and every neighbour of it that is neither visited nor in the next frontier yet,
  puts the neighbour into the next frontier and records its distance (the level) and its
  predecessor (the frontier vertex), once per vertex. The loop ends at an empty
  frontier. An unreached vertex keeps the sentinels: the largest 32-bit value for the
  distance and \<open>-1\<close> for the predecessor. The tuning arguments (\<open>directed\<close>, \<open>alpha\<close>,
  \<open>beta\<close>) do not enter the spec's loop. Rows that are not a compressed sparse adjacency
  over \<open>n\<close> vertices, result buffers shorter than \<open>n\<close> and a start vertex out of range
  are outside the contract (\<open>None\<close>); so is a loop that outlives its fuel.
\<close>

definition neighbours :: "int list \<Rightarrow> int list \<Rightarrow> nat \<Rightarrow> nat list" where
  "neighbours offs inds v =
     map nat (take (nat (offs ! Suc v) - nat (offs ! v)) (drop (nat (offs ! v)) inds))"

definition discover ::
  "int \<Rightarrow> nat \<Rightarrow> bool list \<Rightarrow> nat \<Rightarrow> nat list \<times> int list \<times> int list
     \<Rightarrow> nat list \<times> int list \<times> int list" where
  "discover level v visited w st =
     (case st of (next_frontier, dists, preds) \<Rightarrow>
        if visited ! w \<or> w \<in> set next_frontier then st
        else (next_frontier @ [w], dists[w := level], preds[w := int v]))"

definition frontier_expand ::
  "int list \<Rightarrow> int list \<Rightarrow> int \<Rightarrow> bool list \<Rightarrow> nat list \<Rightarrow> int list \<times> int list
     \<Rightarrow> nat list \<times> int list \<times> int list" where
  "frontier_expand offs inds level visited frontier res =
     fold (\<lambda>v st. fold (discover level v visited) (neighbours offs inds v) st) frontier
       ([], fst res, snd res)"

fun bfs_levels ::
  "nat \<Rightarrow> int list \<Rightarrow> int list \<Rightarrow> int \<Rightarrow> bool list \<Rightarrow> nat list \<Rightarrow> int list \<times> int list
     \<Rightarrow> (int list \<times> int list) option" where
  "bfs_levels 0 offs inds level visited frontier res =
     (if frontier = [] then Some res else None)"
| "bfs_levels (Suc fuel) offs inds level visited frontier res =
     (if frontier = [] then Some res
      else
        (let visited1 = fold (\<lambda>v vis. vis[v := True]) frontier visited in
         case frontier_expand offs inds (level + 1) visited1 frontier res of
           (next_frontier, dists, preds) \<Rightarrow>
             bfs_levels fuel offs inds (level + 1) visited1 next_frontier (dists, preds)))"

definition Bfs_traverse ::
  "int \<Rightarrow> nat \<Rightarrow> int list \<Rightarrow> int list \<Rightarrow> bool \<Rightarrow> int \<Rightarrow> int \<Rightarrow> int list \<Rightarrow> int list \<Rightarrow> int
     \<Rightarrow> (int list \<times> int list) option" where
  "Bfs_traverse n e offs inds directed alpha beta distances predecessors start_node =
     (if n < 0 \<or> length offs < nat n + 1 \<or> length inds < e
         \<or> length distances < nat n \<or> length predecessors < nat n
         \<or> start_node < 0 \<or> n \<le> start_node
         \<or> \<not> sorted (take (nat n + 1) offs)
         \<or> list_ex (\<lambda>x. x < 0 \<or> int e < x) (take (nat n + 1) offs)
         \<or> list_ex (\<lambda>x. x < 0 \<or> n \<le> x) (take e inds)
      then None
      else
        (case bfs_levels (nat n) offs (take e inds) 0 (replicate (nat n) False) [nat start_node]
                ((replicate (nat n) 2147483647)[nat start_node := 0], replicate (nat n) (- 1)) of
           None \<Rightarrow> None
         | Some (dists, preds) \<Rightarrow>
             Some (dists @ drop (nat n) distances, preds @ drop (nat n) predecessors)))"

text \<open>\<^verbatim>\<open>gdf_bfs\<close>, from the source. The result columns are arguments and are returned.\<close>

definition gdf_bfs ::
  "'w gdf_graph \<Rightarrow> int gdf_column \<Rightarrow> int gdf_column \<Rightarrow> int \<Rightarrow> bool
     \<Rightarrow> (gdf_error \<times> 'w gdf_graph \<times> int gdf_column \<times> int gdf_column) option" where
  "gdf_bfs graph distances predecessors start_node directed =
     (if \<not> (adjList graph \<noteq> None \<or> edgeList graph \<noteq> None) then
        Some (GDF_INVALID_API_CALL, graph, distances, predecessors)
      else
        (case gdf_add_adj_list graph of
           None \<Rightarrow> None
         | Some (err, graph1) \<Rightarrow>
             if err \<noteq> GDF_SUCCESS then Some (err, graph1, distances, predecessors)
             else
               (case adjList graph1 of
                  None \<Rightarrow> None
                | Some al \<Rightarrow>
                    if \<not> dtype (offsets al) = GDF_INT32 then
                      Some (GDF_UNSUPPORTED_DTYPE, graph1, distances, predecessors)
                    else if \<not> dtype (indices al) = GDF_INT32 then
                      Some (GDF_UNSUPPORTED_DTYPE, graph1, distances, predecessors)
                    else if \<not> dtype distances = GDF_INT32 then
                      Some (GDF_UNSUPPORTED_DTYPE, graph1, distances, predecessors)
                    else if \<not> dtype predecessors = GDF_INT32 then
                      Some (GDF_UNSUPPORTED_DTYPE, graph1, distances, predecessors)
                    else
                      (let n = int (col_size (offsets al)) - 1;
                           e = col_size (indices al);
                           alpha = 15;
                           beta = 18
                       in case Bfs_traverse n e (buf (offsets al)) (buf (indices al)) directed
                                 alpha beta (buf distances) (buf predecessors) start_node of
                            None \<Rightarrow> None
                          | Some (dists, preds) \<Rightarrow>
                              Some (GDF_SUCCESS, graph1, distances\<lparr>data := Some dists\<rparr>,
                                    predecessors\<lparr>data := Some preds\<rparr>)))))"

section \<open>Degree buckets and their workers\<close>

text \<open>
  The worker kernels, from the source. The view of the graph and the bucket are declared
  in headers that are not among the sources; they have the members the workers read. An
  operator changes device memory, of type \<open>'s\<close>, for a source vertex and a neighbour; a
  device is that memory and the list of the kernel launches made so far, each with its
  block count and block size. A kernel is run as the sequence of the operator calls its
  threads make. In \<^verbatim>\<open>kernel_per_vertex_worker_weightless\<close> every thread walks all the
  vertices of the bucket and takes, of each vertex, the edges at its own index and every
  stride further; its calls are listed thread by thread. In
  \<^verbatim>\<open>block_per_vertex_worker_weightless\<close> a block has one vertex; its calls are listed block
  by block and edge by edge. The threads of a launch run at once: the order between
  them, and the stream, are not modelled.
\<close>

record GraphCSRView =
  view_offsets :: "int list"
  view_indices :: "int list"

record DegreeBucket =
  vertexIds :: "int list"
  numberOfVertices :: int
  ceilLogDegreeEnd :: int

record 's device =
  launches :: "(int \<times> int) list"
  memory :: 's

definition edge_range :: "GraphCSRView \<Rightarrow> int \<Rightarrow> int list" where
  "edge_range graph source =
     (let offset_begin = nat (view_offsets graph ! nat source);
          offset_end = nat (view_offsets graph ! nat (source + 1))
      in take (offset_end - offset_begin) (drop offset_begin (view_indices graph)))"

definition thread_edges :: "nat \<Rightarrow> nat \<Rightarrow> int list \<Rightarrow> int list" where
  "thread_edges tid stride es =
     map (\<lambda>k. es ! k) (filter (\<lambda>k. k mod stride = tid) [0..<length es])"

definition kernel_per_vertex_worker_weightless ::
  "int \<Rightarrow> int \<Rightarrow> GraphCSRView \<Rightarrow> int list \<Rightarrow> int \<Rightarrow> (int \<Rightarrow> int \<Rightarrow> 's \<Rightarrow> 's) \<Rightarrow> 's \<Rightarrow> 's" where
  "kernel_per_vertex_worker_weightless gridDim blockDim graph vertex_ids number_of_vertices op =
     (let stride = nat (blockDim * gridDim)
      in fold (\<lambda>tid. fold (\<lambda>source. fold (op source)
                                   (thread_edges tid stride (edge_range graph source)))
                         (take (nat number_of_vertices) vertex_ids))
           [0..<stride])"

definition block_per_vertex_worker_weightless ::
  "int \<Rightarrow> GraphCSRView \<Rightarrow> int list \<Rightarrow> int \<Rightarrow> (int \<Rightarrow> int \<Rightarrow> 's \<Rightarrow> 's) \<Rightarrow> 's \<Rightarrow> 's" where
  "block_per_vertex_worker_weightless gridDim graph vertex_ids number_of_vertices op =
     fold (\<lambda>source. fold (op source) (edge_range graph source))
       (take (nat (min gridDim number_of_vertices)) vertex_ids)"

definition launch :: "int \<Rightarrow> int \<Rightarrow> ('s \<Rightarrow> 's) \<Rightarrow> 's device \<Rightarrow> 's device" where
  "launch block_count block_size kern dev =
     \<lparr>launches = launches dev @ [(block_count, block_size)], memory = kern (memory dev)\<rparr>"

definition large_vertex_worker ::
  "GraphCSRView \<Rightarrow> DegreeBucket \<Rightarrow> (int \<Rightarrow> int \<Rightarrow> 's \<Rightarrow> 's) \<Rightarrow> 's device \<Rightarrow> 's device" where
  "large_vertex_worker graph bucket op dev =
     (let block_size = 32; block_count = 1024
      in if numberOfVertices bucket \<noteq> 0 then
           launch block_count block_size
             (kernel_per_vertex_worker_weightless block_count block_size graph (vertexIds bucket)
                (numberOfVertices bucket) op) dev
         else dev)"

definition medium_vertex_worker ::
  "GraphCSRView \<Rightarrow> DegreeBucket \<Rightarrow> (int \<Rightarrow> int \<Rightarrow> 's \<Rightarrow> 's) \<Rightarrow> 's device \<Rightarrow> 's device" where
  "medium_vertex_worker graph bucket op dev =
     (let block_size = 1024; block_count = numberOfVertices bucket
      in if block_count \<noteq> 0 then
           launch block_count block_size
             (block_per_vertex_worker_weightless block_count graph (vertexIds bucket)
                (numberOfVertices bucket) op) dev
         else dev)"

definition small_vertex_worker ::
  "GraphCSRView \<Rightarrow> DegreeBucket \<Rightarrow> (int \<Rightarrow> int \<Rightarrow> 's \<Rightarrow> 's) \<Rightarrow> 's device \<Rightarrow> 's device" where
  "small_vertex_worker graph bucket op dev =
     (let block_size = (if ceilLogDegreeEnd bucket < 6 then 32
                        else if ceilLogDegreeEnd bucket < 8 then 64
                        else if ceilLogDegreeEnd bucket < 10 then 128
                        else if ceilLogDegreeEnd bucket < 12 then 512
                        else 512);
          block_count = numberOfVertices bucket
      in if block_count \<noteq> 0 then
           launch block_count block_size
             (block_per_vertex_worker_weightless block_count graph (vertexIds bucket)
                (numberOfVertices bucket) op) dev
         else dev)"

section \<open>Predicates and example inputs\<close>

text \<open>The shape of a compressed sparse adjacency: the offsets start at 0, do not decrease
  and end at the number of indices, the vertex count being one less than the number of
  offsets; every index is a vertex.\<close>

definition csr_invariant :: "int list \<Rightarrow> int list \<Rightarrow> bool" where
  "csr_invariant offs inds =
     (offs \<noteq> [] \<and> sorted offs \<and> offs ! 0 = 0
      \<and> offs ! (length offs - 1) = int (length inds)
      \<and> list_all (\<lambda>x. 0 \<le> x \<and> x < int (length offs - 1)) inds)"

text \<open>Inputs for the examples: an id column with a type tag, a 32-bit id column, the graph
  with no representation, and the graph that \<^verbatim>\<open>gdf_edge_list_view\<close> makes of two id
  columns.\<close>

definition id_column :: "gdf_dtype \<Rightarrow> int list \<Rightarrow> int gdf_column" where
  "id_column t xs = gdf_column_view (Some xs) None t"

definition int32_column :: "int list \<Rightarrow> int gdf_column" where
  "int32_column xs = gdf_column_view (Some xs) None GDF_INT32"

definition empty_graph :: "real gdf_graph" where
  "empty_graph = \<lparr>edgeList = None, adjList = None, transposedAdjList = None\<rparr>"

definition edge_list_graph :: "int list \<Rightarrow> int list \<Rightarrow> real gdf_graph" where
  "edge_list_graph srcs dests =
     snd (gdf_edge_list_view empty_graph (int32_column srcs) (int32_column dests) None)"

text \<open>Two id arrays of the largest length a column can have that hold, between them, all
  the 2147483648 non-negative 32-bit values.\<close>

definition big_src :: "int list" where
  "big_src = [0..2147483646]"

definition big_dst :: "int list" where
  "big_dst = [1..2147483647]"

text \<open>Two such arrays with one identifier more between them, \<open>-1\<close>: 2147483649 distinct
  32-bit values.\<close>

definition wide_src :: "int list" where
  "wide_src = [- 1..2147483645]"

definition wide_dst :: "int list" where
  "wide_dst = [1..2147483647]"

text \<open>A memory manager and a device that do not fail; a fresh buffer holds zeros there. An
  output column that has not been written yet. The parts of what the renumbering
  returns.\<close>

definition all_succeed :: memory_outcomes where
  "all_succeed = \<lparr>alloc_try = (\<lambda>k. GDF_SUCCESS), fresh = (\<lambda>k n. replicate n 0),
                  alloc_free_try = (\<lambda>k. GDF_SUCCESS), renumber_status = GDF_SUCCESS\<rparr>"

definition unset_column :: "int gdf_column_sized" where
  "unset_column = gdf_column_view_sized None None 0 GDF_invalid"

definition int32_column_sized :: "int list \<Rightarrow> int gdf_column_sized" where
  "int32_column_sized xs = gdf_column_view_sized (Some xs) None (int (length xs)) GDF_INT32"

definition renumbered_src ::
  "gdf_error \<times> int gdf_column_sized \<times> int gdf_column_sized \<times> int gdf_column_sized
     \<Rightarrow> int gdf_column_sized" where
  "renumbered_src r = fst (snd r)"

definition renumbered_dst ::
  "gdf_error \<times> int gdf_column_sized \<times> int gdf_column_sized \<times> int gdf_column_sized
     \<Rightarrow> int gdf_column_sized" where
  "renumbered_dst r = fst (snd (snd r))"

definition numbering_map_of ::
  "gdf_error \<times> int gdf_column_sized \<times> int gdf_column_sized \<times> int gdf_column_sized
     \<Rightarrow> int gdf_column_sized" where
  "numbering_map_of r = snd (snd (snd r))"

text \<open>The edge list read in the other direction.\<close>

definition swap_edges :: "'w gdf_edge_list \<Rightarrow> 'w gdf_edge_list" where
  "swap_edges el = el\<lparr>src_indices := dest_indices el, dest_indices := src_indices el\<rparr>"

text \<open>The spec's words for the transposed view: the converter run again over the edge list
  with the source and destination arrays swapped. The result is what a successful run
  produces: offsets, indices and, with edge data, weights.\<close>

definition converter_on_swapped ::
  "'w gdf_edge_list \<Rightarrow> (int list \<times> int list \<times> 'w list option) option" where
  "converter_on_swapped el =
     (case gdf_edge_list.edge_data el of
        None \<Rightarrow>
          (case ConvertCOOtoCSR (buf (dest_indices el)) (buf (src_indices el))
                  (col_size (src_indices el)) of
             None \<Rightarrow> None
           | Some (status, r) \<Rightarrow>
               if status = GDF_SUCCESS then Some (rowOffsets r, colIndices r, None) else None)
      | Some ed \<Rightarrow>
          (case ConvertCOOtoCSR_weighted (buf (dest_indices el)) (buf (src_indices el)) (buf ed)
                  (col_size (src_indices el)) of
             None \<Rightarrow> None
           | Some (status, r) \<Rightarrow>
               if status = GDF_SUCCESS then
                 Some (rowOffsets r, colIndices r, Some (edgeWeights r))
               else None))"

text \<open>Stand-ins for the parts that are parameters, for the examples: a solver run that ends
  at the iteration cap, one that converges, a transition matrix, the sources of the rows;
  and a 32-bit float column.\<close>

definition capped_solver :: "real pagerank_solver" where
  "capped_solver m e offs inds d_val alpha d_leaf_vector has_guess tolerance max_iter d_pr =
     (1, replicate m (1 / real m))"

definition converged_solver :: "real pagerank_solver" where
  "converged_solver m e offs inds d_val alpha d_leaf_vector has_guess tolerance max_iter d_pr =
     (0, replicate m (1 / real m))"

definition uniform_matrix :: "nat \<Rightarrow> nat \<Rightarrow> int list \<Rightarrow> int list \<Rightarrow> real list \<times> real list" where
  "uniform_matrix m e offs inds = (replicate e 1, replicate m 0)"

definition sources_of_rows :: "int list \<Rightarrow> int \<Rightarrow> nat \<Rightarrow> int list" where
  "sources_of_rows offs n len = replicate len 0"

definition float32_column :: "real list \<Rightarrow> real gdf_column" where
  "float32_column xs = gdf_column_view (Some xs) None GDF_FLOAT32"

text \<open>The edge list of the three edges (0,1), (0,2), (1,2) and its transposed rows.\<close>

definition example_edges :: "real gdf_edge_list" where
  "example_edges = \<lparr>src_indices = int32_column [0, 0, 1], dest_indices = int32_column [1, 2, 2],
                    gdf_edge_list.edge_data = None, gdf_edge_list.ownership = 0\<rparr>"

definition example_transposed :: "real gdf_adj_list" where
  "example_transposed = \<lparr>offsets = int32_column [0, 0, 1, 3], indices = int32_column [0, 0, 1],
                         gdf_adj_list.edge_data = None, gdf_adj_list.ownership = 1\<rparr>"

section \<open>Facts about the converter\<close>

lemma length_prefix_sum: "length (prefix_sum acc cs) = Suc (length cs)"
  by (induction cs arbitrary: acc) auto

lemma prefix_sum_nth0: "prefix_sum acc cs ! 0 = acc"
  by (cases cs) auto

lemma prefix_sum_ge: "x \<in> set (prefix_sum acc cs) \<Longrightarrow> acc \<le> x"
proof (induction cs arbitrary: acc)
  case Nil
  then show ?case by simp
next
  case (Cons c cs)
  then show ?case by fastforce
qed

lemma sorted_prefix_sum: "sorted (prefix_sum acc cs)"
proof (induction cs arbitrary: acc)
  case Nil
  then show ?case by simp
next
  case (Cons c cs)
  have "\<And>x. x \<in> set (prefix_sum (acc + c) cs) \<Longrightarrow> acc \<le> x"
    using prefix_sum_ge [of _ "acc + c" cs] by fastforce
  with Cons show ?case by simp
qed

lemma prefix_sum_last: "prefix_sum acc cs ! length cs = acc + sum_list cs"
  by (induction cs arbitrary: acc) (auto simp: add.assoc)

lemma prefix_sum_cover:
  "acc \<le> p \<Longrightarrow> p < acc + sum_list cs \<Longrightarrow>
     \<exists>v j. v < length cs \<and> j < cs ! v \<and> p = prefix_sum acc cs ! v + j"
proof (induction cs arbitrary: acc)
  case Nil
  then show ?case by simp
next
  case (Cons c cs)
  show ?case
  proof (cases "p < acc + c")
    case True
    with Cons.prems have "0 < length (c # cs) \<and> p - acc < (c # cs) ! 0 \<and> p = prefix_sum acc (c # cs) ! 0 + (p - acc)"
      by simp
    then show ?thesis by blast
  next
    case False
    with Cons.prems have "acc + c \<le> p" "p < (acc + c) + sum_list cs" by simp_all
    from Cons.IH [OF this] obtain v j where
      "v < length cs" "j < cs ! v" "p = prefix_sum (acc + c) cs ! v + j" by blast
    then have "Suc v < length (c # cs) \<and> j < (c # cs) ! Suc v \<and> p = prefix_sum acc (c # cs) ! Suc v + j"
      by simp
    then show ?thesis by blast
  qed
qed

lemma butlast_prefix_sum_nth:
  "v < length cs \<Longrightarrow> butlast (prefix_sum acc cs) ! v = prefix_sum acc cs ! v"
  by (simp add: nth_butlast length_prefix_sum)

lemma length_fold_count: "length (fold (\<lambda>s c. c[s := Suc (c ! s)]) keys c0) = length c0"
  by (induction keys arbitrary: c0) auto

lemma fold_count_nth:
  "v < length c0 \<Longrightarrow>
     fold (\<lambda>s c. c[s := Suc (c ! s)]) keys c0 ! v = c0 ! v + count_list keys v"
proof (induction keys arbitrary: c0)
  case Nil
  then show ?case by simp
next
  case (Cons k keys)
  then show ?case by (cases "k = v") (auto simp: nth_list_update)
qed

lemma sum_list_bump: "s < length c \<Longrightarrow> sum_list (c[s := Suc (c ! s)]) = Suc (sum_list c)"
  by (simp add: sum_list_update)

lemma fold_count_sum:
  "list_all (\<lambda>k. k < length c0) keys \<Longrightarrow>
     sum_list (fold (\<lambda>s c. c[s := Suc (c ! s)]) keys c0) = sum_list c0 + length keys"
proof (induction keys arbitrary: c0)
  case Nil
  then show ?case by simp
next
  case (Cons k keys)
  then show ?case by (simp add: sum_list_bump)
qed

lemma length_degree_counts: "length (degree_counts n keys) = n"
  by (simp add: degree_counts_def length_fold_count)

lemma degree_counts_nth: "v < n \<Longrightarrow> degree_counts n keys ! v = count_list keys v"
  by (simp add: degree_counts_def fold_count_nth)

lemma degree_counts_sum:
  "list_all (\<lambda>k. k < n) keys \<Longrightarrow> sum_list (degree_counts n keys) = length keys"
  using fold_count_sum [of "replicate n 0" keys] by (simp add: degree_counts_def)

lemma length_scatter: "length (scatter es cur out) = length out"
  by (induction es cur out rule: scatter.induct) auto

lemma scatter_keeps:
  "p < length out \<Longrightarrow> out ! p \<noteq> None \<Longrightarrow> scatter es cur out ! p \<noteq> None"
proof (induction es cur out rule: scatter.induct)
  case (1 cur out)
  then show ?case by simp
next
  case (2 s d es cur out)
  then show ?case by (cases "cur ! s = p") (auto simp: nth_list_update)
qed

lemma scatter_written:
  "v < length cur \<Longrightarrow> j < count_list (map fst es) v \<Longrightarrow> cur ! v + j < length out \<Longrightarrow>
     scatter es cur out ! (cur ! v + j) \<noteq> None"
proof (induction es cur out arbitrary: j rule: scatter.induct)
  case (1 cur out)
  then show ?case by simp
next
  case (2 s d es cur out)
  let ?cur = "cur[s := Suc (cur ! s)]" and ?out = "out[cur ! s := Some d]"
  have len: "v < length ?cur" using "2.prems" by simp
  show ?case
  proof (cases "s = v")
    case True
    show ?thesis
    proof (cases j)
      case 0
      have "?out ! (cur ! v) \<noteq> None" using True 0 "2.prems" by simp
      moreover have "cur ! v < length ?out" using 0 "2.prems" by simp
      ultimately have "scatter es ?cur ?out ! (cur ! v) \<noteq> None" by (rule scatter_keeps [rotated])
      then show ?thesis using 0 by simp
    next
      case (Suc k)
      have k: "k < count_list (map fst es) v" using True Suc "2.prems" by simp
      have pos: "?cur ! v + k = cur ! v + j" using True Suc "2.prems" by simp
      have "?cur ! v + k < length ?out" using pos "2.prems" by simp
      from "2.IH" [OF len k this] show ?thesis using pos by simp
    qed
  next
    case False
    have k: "j < count_list (map fst es) v" using False "2.prems" by simp
    have pos: "?cur ! v = cur ! v" using False by simp
    have "?cur ! v + j < length ?out" using pos "2.prems" by simp
    from "2.IH" [OF len k this] show ?thesis using pos by simp
  qed
qed

lemma scatter_values:
  "x \<in> set (scatter es cur out) \<Longrightarrow> x \<in> set out \<or> (\<exists>d \<in> snd ` set es. x = Some d)"
proof (induction es cur out rule: scatter.induct)
  case (1 cur out)
  then show ?case by simp
next
  case (2 s d es cur out)
  from 2 have "x \<in> set (out[cur ! s := Some d]) \<or> (\<exists>d \<in> snd ` set es. x = Some d)" by simp
  moreover have "set (out[cur ! s := Some d]) \<subseteq> insert (Some d) (set out)"
    by (rule set_update_subset_insert)
  ultimately show ?case by auto
qed


lemma fold_max_ge_init: "(a::int) \<le> fold max xs a"
proof (induction xs arbitrary: a)
  case Nil
  then show ?case by simp
next
  case (Cons x xs)
  have "a \<le> max x a" by simp
  also have "\<dots> \<le> fold max xs (max x a)" by (rule Cons.IH)
  finally show ?case by simp
qed

lemma fold_max_ge: "(x::int) \<in> set xs \<Longrightarrow> x \<le> fold max xs a"
proof (induction xs arbitrary: a)
  case Nil
  then show ?case by simp
next
  case (Cons y ys)
  show ?case
  proof (cases "x = y")
    case True
    have "x \<le> max y a" using True by simp
    also have "\<dots> \<le> fold max ys (max y a)" by (rule fold_max_ge_init)
    finally show ?thesis by simp
  next
    case False
    with Cons.prems have "x \<in> set ys" by simp
    from Cons.IH [OF this] show ?thesis by simp
  qed
qed

lemma vertex_count_bound: "x \<in> set (s @ d) \<Longrightarrow> x < int (vertex_count s d)"
  using fold_max_ge [of x "s @ d" 0] by (simp add: vertex_count_def)

lemma scatter_complete:
  assumes keys: "list_all (\<lambda>k. k < n) keys" and len: "length vals = length keys"
  shows "None \<notin> set (scatter (zip keys vals) (butlast (prefix_sum 0 (degree_counts n keys)))
                      (replicate (length keys) None))"
proof -
  let ?cs = "degree_counts n keys"
  let ?offs = "prefix_sum 0 ?cs"
  let ?res = "scatter (zip keys vals) (butlast ?offs) (replicate (length keys) None)"
  have total: "sum_list ?cs = length keys" using keys by (rule degree_counts_sum)
  have fst_zip: "map fst (zip keys vals) = keys" using len by simp
  have "?res ! p \<noteq> None" if p: "p < length keys" for p
  proof -
    from p total have "0 \<le> p" "p < 0 + sum_list ?cs" by simp_all
    from prefix_sum_cover [OF this] obtain v j where
      v: "v < length ?cs" and j: "j < ?cs ! v" and pos: "p = ?offs ! v + j" by blast
    from v have vn: "v < n" by (simp add: length_degree_counts)
    have cur: "butlast ?offs ! v = ?offs ! v" using v by (rule butlast_prefix_sum_nth)
    have lcur: "v < length (butlast ?offs)" using v by (simp add: length_prefix_sum)
    have cnt: "j < count_list (map fst (zip keys vals)) v"
      using j vn by (simp add: fst_zip degree_counts_nth)
    have "butlast ?offs ! v + j < length (replicate (length keys) (None :: 'a option))"
      using p pos cur by simp
    from scatter_written [OF lcur cnt this] show ?thesis using pos cur by simp
  qed
  then show ?thesis by (auto simp: in_set_conv_nth length_scatter)
qed

lemma scatter_range:
  assumes keys: "list_all (\<lambda>k. k < n) keys" and len: "length vals = length keys"
  shows "set (map the (scatter (zip keys vals) (butlast (prefix_sum 0 (degree_counts n keys)))
                         (replicate (length keys) None))) \<subseteq> set vals"
proof
  let ?res = "scatter (zip keys vals) (butlast (prefix_sum 0 (degree_counts n keys)))
                (replicate (length keys) None)"
  fix y assume "y \<in> set (map the ?res)"
  then obtain x where x: "x \<in> set ?res" and y: "y = the x" by auto
  have "x \<noteq> None" using scatter_complete [OF keys len] x by metis
  moreover from scatter_values [OF x]
  have "x = None \<or> (\<exists>d \<in> snd ` set (zip keys vals). x = Some d)" by auto
  ultimately obtain d where "d \<in> snd ` set (zip keys vals)" "x = Some d" by blast
  then show "y \<in> set vals" using y by (auto dest: set_zip_rightD)
qed

lemma offsets_shape:
  assumes keys: "list_all (\<lambda>k. k < n) keys"
  shows "length (prefix_sum 0 (degree_counts n keys)) = Suc n"
    and "sorted (map int (prefix_sum 0 (degree_counts n keys)))"
    and "map int (prefix_sum 0 (degree_counts n keys)) ! 0 = 0"
    and "map int (prefix_sum 0 (degree_counts n keys)) ! n = int (length keys)"
proof -
  let ?cs = "degree_counts n keys"
  show l: "length (prefix_sum 0 ?cs) = Suc n"
    by (simp add: length_prefix_sum length_degree_counts)
  show "sorted (map int (prefix_sum 0 ?cs))"
    using sorted_prefix_sum [of 0 ?cs] by (simp add: sorted_map sorted_wrt_iff_nth_less)
  show "map int (prefix_sum 0 ?cs) ! 0 = 0"
    using l by (simp add: prefix_sum_nth0)
  have "prefix_sum 0 ?cs ! length ?cs = 0 + sum_list ?cs" by (rule prefix_sum_last)
  then have "prefix_sum 0 ?cs ! n = length keys"
    using degree_counts_sum [OF keys] by (simp add: length_degree_counts)
  then show "map int (prefix_sum 0 ?cs) ! n = int (length keys)" using l by simp
qed


lemma keys_in_range:
  assumes "\<not> list_ex (\<lambda>x. x < 0) (s @ d)"
  shows "list_all (\<lambda>k. k < vertex_count s d) (map nat s)"
proof -
  have "nat x < vertex_count s d" if "x \<in> set s" for x
  proof -
    from that have "x < int (vertex_count s d)" by (simp add: vertex_count_bound)
    moreover have "0 < vertex_count s d" by (simp add: vertex_count_def)
    ultimately show ?thesis by arith
  qed
  then show ?thesis by (simp add: list_all_iff)
qed

lemma values_in_range:
  assumes "\<not> list_ex (\<lambda>x. x < 0) (s @ d)" and "x \<in> set d"
  shows "0 \<le> x \<and> x < int (vertex_count s d)"
proof -
  from assms have "\<not> x < 0" by (auto simp: list_ex_iff)
  moreover from assms have "x < int (vertex_count s d)" by (simp add: vertex_count_bound)
  ultimately show ?thesis by simp
qed

lemma ConvertCOOtoCSR_shape:
  assumes run: "ConvertCOOtoCSR src dst ne = Some (GDF_SUCCESS, r)"
  shows "length (rowOffsets r) = Suc (csr_size r) \<and> sorted (rowOffsets r) \<and> rowOffsets r ! 0 = 0
         \<and> rowOffsets r ! csr_size r = int (length (colIndices r))
         \<and> list_all (\<lambda>x. 0 \<le> x \<and> x < int (csr_size r)) (colIndices r)"
proof -
  let ?s = "take ne src" and ?d = "take ne dst"
  let ?n = "vertex_count ?s ?d"
  let ?keys = "map nat ?s"
  let ?offs = "prefix_sum 0 (degree_counts ?n ?keys)"
  let ?cols = "scatter (zip ?keys ?d) (butlast ?offs) (replicate ne None)"
  from run have lens: "ne \<le> length src" "ne \<le> length dst" and ne: "ne \<noteq> 0"
    and nonneg: "\<not> list_ex (\<lambda>x. x < 0) (?s @ ?d)"
    by (auto simp: ConvertCOOtoCSR_def Let_def split: if_splits)
  with run have r: "r = \<lparr>csr_size = ?n, nnz = ne, rowOffsets = map int ?offs,
                         colIndices = map the ?cols\<rparr>"
    by (auto simp: ConvertCOOtoCSR_def Let_def split: if_splits)
  have lk: "length ?keys = ne" and ld: "length ?d = length ?keys" using lens by simp_all
  have keys: "list_all (\<lambda>k. k < ?n) ?keys" using nonneg by (rule keys_in_range)
  note shape = offsets_shape [OF keys]
  have "set (map the ?cols) \<subseteq> set ?d"
    using scatter_range [OF keys ld] by (simp only: lk)
  then have cols: "list_all (\<lambda>x. 0 \<le> x \<and> x < int ?n) (map the ?cols)"
    using values_in_range [OF nonneg] unfolding list_all_iff by blast
  have lc: "length (map the ?cols) = ne" by (simp add: length_scatter)
  show ?thesis
    unfolding r using shape cols lc lk by simp
qed

lemma ConvertCOOtoCSR_weighted_shape:
  assumes run: "ConvertCOOtoCSR_weighted src dst w ne = Some (GDF_SUCCESS, r)"
  shows "length (rowOffsets r) = Suc (csr_size r) \<and> sorted (rowOffsets r) \<and> rowOffsets r ! 0 = 0
         \<and> rowOffsets r ! csr_size r = int (length (colIndices r))
         \<and> list_all (\<lambda>x. 0 \<le> x \<and> x < int (csr_size r)) (colIndices r)
         \<and> length (edgeWeights r) = length (colIndices r)"
proof -
  let ?s = "take ne src" and ?d = "take ne dst" and ?w = "take ne w"
  let ?n = "vertex_count ?s ?d"
  let ?keys = "map nat ?s"
  let ?offs = "prefix_sum 0 (degree_counts ?n ?keys)"
  let ?cols = "scatter (zip ?keys ?d) (butlast ?offs) (replicate ne None)"
  let ?vals = "scatter (zip ?keys ?w) (butlast ?offs) (replicate ne None)"
  from run have lens: "ne \<le> length src" "ne \<le> length dst" and ne: "ne \<noteq> 0"
    and nonneg: "\<not> list_ex (\<lambda>x. x < 0) (?s @ ?d)"
    by (auto simp: ConvertCOOtoCSR_weighted_def Let_def split: if_splits)
  with run have r: "r = \<lparr>csr_size = ?n, nnz = ne, rowOffsets = map int ?offs,
                         colIndices = map the ?cols, edgeWeights = map the ?vals\<rparr>"
    by (auto simp: ConvertCOOtoCSR_weighted_def Let_def split: if_splits)
  have lk: "length ?keys = ne" and ld: "length ?d = length ?keys" using lens by simp_all
  have keys: "list_all (\<lambda>k. k < ?n) ?keys" using nonneg by (rule keys_in_range)
  note shape = offsets_shape [OF keys]
  have "set (map the ?cols) \<subseteq> set ?d"
    using scatter_range [OF keys ld] by (simp only: lk)
  then have cols: "list_all (\<lambda>x. 0 \<le> x \<and> x < int ?n) (map the ?cols)"
    using values_in_range [OF nonneg] unfolding list_all_iff by blast
  have lc: "length (map the ?cols) = ne" "length (map the ?vals) = ne"
    by (simp_all add: length_scatter)
  show ?thesis
    unfolding r using shape cols lc lk by simp
qed

section \<open>The adjacency list built from an edge list\<close>

text \<open>
  C3. When \<^verbatim>\<open>gdf_add_adj_list\<close> converts the edge list of a graph that has no adjacency
  list yet and reports success, the offsets of the adjacency list do not decrease, start
  at 0 and end at the number of indices, and every index is a vertex id in range.
\<close>

theorem add_adj_list_csr_invariant:
  assumes absent: "adjList graph = None"
    and run: "gdf_add_adj_list graph = Some (GDF_SUCCESS, graph')"
  shows "\<exists>al. adjList graph' = Some al \<and> csr_invariant (buf (offsets al)) (buf (indices al))"
proof -
  from absent run obtain el where el: "edgeList graph = Some el"
    by (auto simp: gdf_add_adj_list_def split: option.splits if_splits)
  from absent run el have impl: "gdf_add_adj_list_impl graph = Some (GDF_SUCCESS, graph')"
    by (auto simp: gdf_add_adj_list_def split: option.splits if_splits)
  show ?thesis
  proof (cases "gdf_edge_list.edge_data el")
    case None
    with impl absent el obtain r where
      conv: "ConvertCOOtoCSR (buf (src_indices el)) (buf (dest_indices el))
               (col_size (src_indices el)) = Some (GDF_SUCCESS, r)"
      and al: "adjList graph' = Some \<lparr>offsets = gdf_column_view (Some (rowOffsets r)) None
                                              (dtype (src_indices el)),
                                  indices = gdf_column_view (Some (colIndices r)) None
                                              (dtype (src_indices el)),
                                  gdf_adj_list.edge_data = None,
                                  gdf_adj_list.ownership = 1\<rparr>"
      by (auto simp: gdf_add_adj_list_impl_def Let_def split: option.splits if_splits)
    from ConvertCOOtoCSR_shape [OF conv] show ?thesis
      by (auto simp: al csr_invariant_def buf_def gdf_column_view_def)
  next
    case (Some ed)
    with impl absent el obtain r where
      conv: "ConvertCOOtoCSR_weighted (buf (src_indices el)) (buf (dest_indices el)) (buf ed)
               (col_size (src_indices el)) = Some (GDF_SUCCESS, r)"
      and al: "adjList graph' = Some \<lparr>offsets = gdf_column_view (Some (rowOffsets r)) None
                                              (dtype (src_indices el)),
                                  indices = gdf_column_view (Some (colIndices r)) None
                                              (dtype (src_indices el)),
                                  gdf_adj_list.edge_data =
                                    Some (gdf_column_view (Some (edgeWeights r)) None (dtype ed)),
                                  gdf_adj_list.ownership = 1\<rparr>"
      by (auto simp: gdf_add_adj_list_impl_def Let_def split: option.splits if_splits)
    from ConvertCOOtoCSR_weighted_shape [OF conv] show ?thesis
      by (auto simp: al csr_invariant_def buf_def gdf_column_view_def)
  qed
qed

theorem add_adj_list_csr_invariant_witness:
  "adjList (edge_list_graph [0, 0, 1] [1, 2, 2]) = None
   \<and> gdf_add_adj_list (edge_list_graph [0, 0, 1] [1, 2, 2])
       = Some (GDF_SUCCESS,
               (edge_list_graph [0, 0, 1] [1, 2, 2])
                 \<lparr>adjList := Some \<lparr>offsets = int32_column [0, 2, 3, 3],
                                    indices = int32_column [1, 2, 2],
                                    gdf_adj_list.edge_data = None,
                                    gdf_adj_list.ownership = 1\<rparr>\<rparr>)
   \<and> csr_invariant [0, 2, 3, 3] [1, 2, 2]"
proof -
  let ?g = "edge_list_graph [0, 0, 1] [1, 2, 2]"
  let ?g' = "?g\<lparr>adjList := Some \<lparr>offsets = int32_column [0, 2, 3, 3],
                                  indices = int32_column [1, 2, 2],
                                  gdf_adj_list.edge_data = None,
                                  gdf_adj_list.ownership = 1\<rparr>\<rparr>"
  have absent: "adjList ?g = None" by code_simp
  have run: "gdf_add_adj_list ?g = Some (GDF_SUCCESS, ?g')" by code_simp
  from add_adj_list_csr_invariant [OF absent run]
  have "csr_invariant [0, 2, 3, 3] [1, 2, 2]"
    by (simp add: buf_def gdf_column_view_def int32_column_def)
  with absent run show ?thesis by blast
qed

section \<open>One graph per object\<close>

text \<open>
  C10. A graph object that already has a representation attached (an edge list, an
  adjacency list or a transposed adjacency list) is refused by \<^verbatim>\<open>gdf_adj_list_view\<close> and by
  \<^verbatim>\<open>gdf_edge_list_view\<close> with \<open>GDF_INVALID_API_CALL\<close>, and is left as it was.
\<close>

theorem view_rejects_second_graph:
  assumes "edgeList graph \<noteq> None \<or> adjList graph \<noteq> None \<or> transposedAdjList graph \<noteq> None"
  shows "gdf_adj_list_view graph offs inds edata = (GDF_INVALID_API_CALL, graph)
         \<and> gdf_edge_list_view graph srcs dests edata' = (GDF_INVALID_API_CALL, graph)"
  using assms by (auto simp: gdf_adj_list_view_def gdf_edge_list_view_def)

theorem view_rejects_second_graph_witness:
  "edgeList (edge_list_graph [0, 1] [1, 0]) \<noteq> None
   \<and> gdf_adj_list_view (edge_list_graph [0, 1] [1, 0]) (int32_column [0, 1, 2])
         (int32_column [1, 0]) None
       = (GDF_INVALID_API_CALL, edge_list_graph [0, 1] [1, 0])
   \<and> gdf_edge_list_view (edge_list_graph [0, 1] [1, 0]) (int32_column [0])
         (int32_column [0]) None
       = (GDF_INVALID_API_CALL, edge_list_graph [0, 1] [1, 0])"
proof -
  let ?g = "edge_list_graph [0, 1] [1, 0]"
  have e: "edgeList ?g \<noteq> None" by code_simp
  then have h: "edgeList ?g \<noteq> None \<or> adjList ?g \<noteq> None \<or> transposedAdjList ?g \<noteq> None"
    by simp
  from view_rejects_second_graph [OF h, of "int32_column [0, 1, 2]" "int32_column [1, 0]" None
      "int32_column [0]" "int32_column [0]" None]
  show ?thesis using e by blast
qed

section \<open>Facts about the renumbering\<close>

lemma numbering_sorted: "sorted (numbering src dst)"
  by (simp add: numbering_def)

lemma numbering_distinct: "distinct (numbering src dst)"
  by (simp add: numbering_def)

lemma numbering_set: "set (numbering src dst) = set src \<union> set dst"
  by (simp add: numbering_def)

lemma dense_id_less: "v \<in> set m \<Longrightarrow> dense_id m v < length m"
  by (induction m) auto

lemma dense_id_nth: "v \<in> set m \<Longrightarrow> m ! dense_id m v = v"
  by (induction m) auto

lemma rank_in_sorted:
  assumes "sorted m" and "distinct m" and "i < length m"
  shows "{y \<in> set m. y < m ! i} = set (take i m)"
proof
  show "{y \<in> set m. y < m ! i} \<subseteq> set (take i m)"
  proof
    fix y assume "y \<in> {y \<in> set m. y < m ! i}"
    then obtain j where j: "j < length m" "m ! j = y" and lt: "y < m ! i"
      by (auto simp: in_set_conv_nth)
    have "j < i"
    proof (rule ccontr)
      assume "\<not> j < i"
      then have "i \<le> j" by simp
      with assms(1) j(1) have "m ! i \<le> m ! j" by (simp add: sorted_nth_mono)
      with j lt show False by simp
    qed
    with j assms(3) show "y \<in> set (take i m)" by (auto simp: in_set_conv_nth)
  qed
  show "set (take i m) \<subseteq> {y \<in> set m. y < m ! i}"
  proof
    fix y assume "y \<in> set (take i m)"
    then obtain j where j: "j < i" "m ! j = y" using assms(3) by (auto simp: in_set_conv_nth)
    have "j \<le> i" "i < length m" using j assms(3) by simp_all
    with assms(1) have "m ! j \<le> m ! i" by (rule sorted_nth_mono)
    moreover have "j < length m" "j \<noteq> i" using j assms(3) by simp_all
    then have "m ! j \<noteq> m ! i" using assms(2,3) by (simp add: nth_eq_iff_index_eq)
    ultimately have "y < m ! i" using j by simp
    moreover have "j < length m" using j assms(3) by simp
    then have "m ! j \<in> set m" by (rule nth_mem)
    ultimately show "y \<in> {y \<in> set m. y < m ! i}" using j by simp
  qed
qed

lemma dense_id_rank:
  assumes "sorted m" and "distinct m" and "v \<in> set m"
  shows "dense_id m v = card {y \<in> set m. y < v}"
proof -
  let ?i = "dense_id m v"
  have i: "?i < length m" and v: "m ! ?i = v" using assms(3) by (simp_all add: dense_id_less dense_id_nth)
  have "{y \<in> set m. y < v} = set (take ?i m)" using rank_in_sorted [OF assms(1,2) i] v by simp
  moreover have "card (set (take ?i m)) = ?i"
    using assms(2) i by (simp add: distinct_card)
  ultimately show ?thesis by simp
qed

lemma dense_id_numbering:
  assumes "v \<in> set src \<union> set dst"
  shows "dense_id (numbering src dst) v = card {y \<in> set src \<union> set dst. y < v}"
  using dense_id_rank [OF numbering_sorted numbering_distinct, of v src dst] assms
  by (simp add: numbering_set)

lemma card_below_in_interval:
  assumes "a \<le> v" and "v \<le> b"
  shows "card {y \<in> {a..b}. y < v} = nat (v - a)"
proof -
  have "{y \<in> {a..b}. y < v} = {a..<v}" using assms by auto
  then show ?thesis by simp
qed

lemma to_int32_small: "0 \<le> x \<Longrightarrow> x < 2147483648 \<Longrightarrow> to_int32 x = x"
  by (simp add: to_int32_def)

lemma new_size_card: "length (numbering xs ys) = card (set xs \<union> set ys)"
  by (simp add: numbering_def length_remdups_card_conv)

lemma buf_id_column: "buf (id_column t xs) = xs" "dtype (id_column t xs) = t"
  "col_size (id_column t xs) = length xs" "valid (id_column t xs) = None"
  by (simp_all add: id_column_def buf_def col_size_def gdf_column_view_def)

text \<open>The two pairs of large arrays.\<close>

lemma length_big: "length big_src = 2147483647" "length big_dst = 2147483647"
  by (simp_all only: big_src_def big_dst_def length_upto)

lemma set_big: "set big_src \<union> set big_dst = {0..2147483647}"
  unfolding big_src_def big_dst_def set_upto by auto

lemma length_wide: "length wide_src = 2147483647" "length wide_dst = 2147483647"
  by (simp_all add: wide_src_def wide_dst_def length_upto del: upto_rec_numeral)

lemma set_wide: "set wide_src \<union> set wide_dst = {- 1..2147483647}"
  unfolding wide_src_def wide_dst_def set_upto by auto

lemma nth_big_src: "k < 2147483647 \<Longrightarrow> big_src ! k = int k"
  unfolding big_src_def by (subst nth_upto) simp_all

lemma nth_wide_dst: "k < 2147483647 \<Longrightarrow> wide_dst ! k = 1 + int k"
  unfolding wide_dst_def by (subst nth_upto) simp_all

text \<open>A call on 32-bit input with nothing failing.\<close>

lemma renumber_32_all_succeed:
  assumes "length xs = length ys" and "0 < length xs"
  shows "gdf_renumber_vertices all_succeed (id_column GDF_INT32 xs) (id_column GDF_INT32 ys) a b c
         = (GDF_SUCCESS,
            gdf_column_view_sized (Some (map (\<lambda>v. to_int32 (int (dense_id (numbering xs ys) v))) xs))
              None (int (length xs)) GDF_INT32,
            gdf_column_view_sized (Some (map (\<lambda>v. to_int32 (int (dense_id (numbering xs ys) v))) ys))
              None (int (length ys)) GDF_INT32,
            gdf_column_view_sized (Some (numbering xs ys)) None
              (int (card (set xs \<union> set ys))) GDF_INT32)"
  using assms
  by (simp add: gdf_renumber_vertices_def renumber_vertices_def all_succeed_def buf_id_column
      Let_def gdf_column_view_sized_def new_size_card)

lemma renumber_64_all_succeed_too_big:
  assumes "length xs = length ys" and "0 < length xs" and "2147483647 < card (set xs \<union> set ys)"
  shows "fst (gdf_renumber_vertices all_succeed (id_column GDF_INT64 xs) (id_column GDF_INT64 ys)
                a b c) = GDF_COLUMN_SIZE_TOO_BIG"
  using assms
  by (simp add: gdf_renumber_vertices_def renumber_vertices_def all_succeed_def buf_id_column
      Let_def new_size_card)


lemma card_big: "card (set big_src \<union> set big_dst) = 2147483648"
  by (simp add: set_big)

lemma card_wide: "card (set wide_src \<union> set wide_dst) = 2147483649"
  by (simp add: set_wide)

lemma dense_id_big: "0 \<le> v \<Longrightarrow> v \<le> 2147483647 \<Longrightarrow> dense_id (numbering big_src big_dst) v = nat v"
  using card_below_in_interval [of 0 v 2147483647]
  by (simp add: dense_id_numbering set_big)

lemma dense_id_wide:
  "- 1 \<le> v \<Longrightarrow> v \<le> 2147483647 \<Longrightarrow> dense_id (numbering wide_src wide_dst) v = nat (v + 1)"
  using card_below_in_interval [of "- 1" v 2147483647]
  by (simp add: dense_id_numbering set_wide)

lemma numbering_wide_first: "numbering wide_src wide_dst ! 0 = - 1"
proof -
  have "- 1 \<in> set (numbering wide_src wide_dst)" by (simp add: numbering_set set_wide)
  from dense_id_nth [OF this] show ?thesis by (simp add: dense_id_wide)
qed

lemma renumber_32_big:
  "gdf_renumber_vertices all_succeed (id_column GDF_INT32 big_src) (id_column GDF_INT32 big_dst)
       a b c
     = (GDF_SUCCESS,
        gdf_column_view_sized
          (Some (map (\<lambda>v. to_int32 (int (dense_id (numbering big_src big_dst) v))) big_src))
          None 2147483647 GDF_INT32,
        gdf_column_view_sized
          (Some (map (\<lambda>v. to_int32 (int (dense_id (numbering big_src big_dst) v))) big_dst))
          None 2147483647 GDF_INT32,
        gdf_column_view_sized (Some (numbering big_src big_dst)) None 2147483648 GDF_INT32)"
  using renumber_32_all_succeed [of big_src big_dst a b c]
  by (simp add: length_big card_big)

lemma renumber_32_wide:
  "gdf_renumber_vertices all_succeed (id_column GDF_INT32 wide_src) (id_column GDF_INT32 wide_dst)
       a b c
     = (GDF_SUCCESS,
        gdf_column_view_sized
          (Some (map (\<lambda>v. to_int32 (int (dense_id (numbering wide_src wide_dst) v))) wide_src))
          None 2147483647 GDF_INT32,
        gdf_column_view_sized
          (Some (map (\<lambda>v. to_int32 (int (dense_id (numbering wide_src wide_dst) v))) wide_dst))
          None 2147483647 GDF_INT32,
        gdf_column_view_sized (Some (numbering wide_src wide_dst)) None 2147483649 GDF_INT32)"
  using renumber_32_all_succeed [of wide_src wide_dst a b c]
  by (simp add: length_wide card_wide)

lemma sized_view: "sized_buf (gdf_column_view_sized (Some xs) v n t) = xs"
  "size_field (gdf_column_view_sized d v n t) = to_int32 n"
  by (simp_all add: sized_buf_def gdf_column_view_sized_def)

lemma dense_big_src_nth:
  "k < 2147483647 \<Longrightarrow>
     map (\<lambda>v. to_int32 (int (dense_id (numbering big_src big_dst) v))) big_src ! k
       = to_int32 (int k)"
  by (simp add: length_big nth_big_src dense_id_big)

lemma dense_wide_dst_nth:
  "k < 2147483647 \<Longrightarrow>
     map (\<lambda>v. to_int32 (int (dense_id (numbering wide_src wide_dst) v))) wide_dst ! k
       = to_int32 (int k + 2)"
  by (simp add: length_wide nth_wide_dst dense_id_wide add.commute)

lemma to_int32_values:
  "to_int32 0 = 0" "to_int32 2 = 2" "to_int32 2147483647 = 2147483647"
  "to_int32 2147483648 = - 2147483648" "to_int32 2147483649 = - 2147483647"
  by (simp_all add: to_int32_def)

section \<open>Renumbering: the input tests\<close>

text \<open>
  C7. \<^verbatim>\<open>gdf_renumber_vertices\<close> returns \<open>GDF_COLUMN_SIZE_MISMATCH\<close> whenever the two input
  arrays differ in length, and \<open>GDF_UNSUPPORTED_DTYPE\<close> whenever, the lengths being equal,
  the type of the identifiers is neither of the two supported widths; in both cases the
  output columns are returned untouched, before anything is allocated or renumbered.
\<close>

theorem renumber_rejects_bad_input:
  "(col_size src \<noteq> col_size dst \<longrightarrow>
      gdf_renumber_vertices rmm src dst a b c = (GDF_COLUMN_SIZE_MISMATCH, a, b, c))
   \<and> (col_size src = col_size dst
        \<and> (\<not> (dtype src = GDF_INT32 \<or> dtype src = GDF_INT64)
            \<or> \<not> (dtype dst = GDF_INT32 \<or> dtype dst = GDF_INT64)) \<longrightarrow>
      gdf_renumber_vertices rmm src dst a b c = (GDF_UNSUPPORTED_DTYPE, a, b, c))"
  by (auto simp: gdf_renumber_vertices_def)


theorem renumber_rejects_bad_input_witness:
  "col_size (int32_column [1, 2]) \<noteq> col_size (int32_column [3])
   \<and> gdf_renumber_vertices all_succeed (int32_column [1, 2]) (int32_column [3])
         unset_column unset_column unset_column
       = (GDF_COLUMN_SIZE_MISMATCH, unset_column, unset_column, unset_column)
   \<and> col_size (id_column GDF_FLOAT32 [1, 2]) = col_size (id_column GDF_FLOAT32 [3, 4])
   \<and> \<not> (dtype (id_column GDF_FLOAT32 [1, 2]) = GDF_INT32
          \<or> dtype (id_column GDF_FLOAT32 [1, 2]) = GDF_INT64)
   \<and> gdf_renumber_vertices all_succeed (id_column GDF_FLOAT32 [1, 2])
         (id_column GDF_FLOAT32 [3, 4]) unset_column unset_column unset_column
       = (GDF_UNSUPPORTED_DTYPE, unset_column, unset_column, unset_column)"
proof -
  let ?e = "unset_column"
  let ?f1 = "id_column GDF_FLOAT32 [1, 2]"
  let ?f2 = "id_column GDF_FLOAT32 [3, 4]"
  have h1: "col_size (int32_column [1, 2]) \<noteq> col_size (int32_column [3])"
    by (simp add: col_size_def buf_def int32_column_def gdf_column_view_def)
  have h2: "col_size ?f1 = col_size ?f2"
    by (simp add: buf_id_column)
  have h3: "\<not> (dtype ?f1 = GDF_INT32 \<or> dtype ?f1 = GDF_INT64)"
    by (simp add: buf_id_column)
  from renumber_rejects_bad_input [of "int32_column [1, 2]" "int32_column [3]" all_succeed ?e ?e ?e]
    h1
  have r1: "gdf_renumber_vertices all_succeed (int32_column [1, 2]) (int32_column [3]) ?e ?e ?e
       = (GDF_COLUMN_SIZE_MISMATCH, ?e, ?e, ?e)" by blast
  from renumber_rejects_bad_input [of ?f1 ?f2 all_succeed ?e ?e ?e] h2 h3
  have r2: "gdf_renumber_vertices all_succeed ?f1 ?f2 ?e ?e ?e
       = (GDF_UNSUPPORTED_DTYPE, ?e, ?e, ?e)"
    by blast
  from h1 h2 h3 r1 r2 show ?thesis by blast
qed

section \<open>Renumbering: the 32-bit path has no ceiling\<close>

text \<open>
  C6, what the code does. The test \<^verbatim>\<open>new_size > 0x7fffffff\<close> stands in the 64-bit branch
  only. Two 32-bit arrays of 2147483647 entries each that hold 2147483648 distinct
  identifiers between them are accepted with \<open>GDF_SUCCESS\<close>; the numbering map has
  2147483648 entries and its size field, narrowed, reads -2147483648. The same arrays as
  64-bit input are refused with \<open>GDF_COLUMN_SIZE_TOO_BIG\<close>.
\<close>

theorem renumber_ceiling_missing_on_32bit_path:
  "fst (gdf_renumber_vertices all_succeed (id_column GDF_INT32 big_src)
          (id_column GDF_INT32 big_dst) unset_column unset_column unset_column) = GDF_SUCCESS
   \<and> length (sized_buf (numbering_map_of
          (gdf_renumber_vertices all_succeed (id_column GDF_INT32 big_src)
             (id_column GDF_INT32 big_dst) unset_column unset_column unset_column)))
       = 2147483648
   \<and> size_field (numbering_map_of
          (gdf_renumber_vertices all_succeed (id_column GDF_INT32 big_src)
             (id_column GDF_INT32 big_dst) unset_column unset_column unset_column))
       = - 2147483648
   \<and> fst (gdf_renumber_vertices all_succeed (id_column GDF_INT64 big_src)
          (id_column GDF_INT64 big_dst) unset_column unset_column unset_column)
       = GDF_COLUMN_SIZE_TOO_BIG"
proof -
  have "fst (gdf_renumber_vertices all_succeed (id_column GDF_INT64 big_src)
          (id_column GDF_INT64 big_dst) unset_column unset_column unset_column)
       = GDF_COLUMN_SIZE_TOO_BIG"
    by (rule renumber_64_all_succeed_too_big) (simp_all add: length_big card_big)
  then show ?thesis
    by (simp add: renumber_32_big numbering_map_of_def sized_view new_size_card card_big
        to_int32_values)
qed

text \<open>
  C2, what the code does. On the 32-bit path the round trip breaks above the ceiling.
  For two 32-bit arrays with 2147483648 distinct identifiers the call succeeds and
  produces the dense id 0, while the size field of the numbering map is -2147483648: no
  dense id is below it. With one distinct identifier more, the call succeeding again,
  the identifier 2147483647 has the position 2147483648, which the
  \<^verbatim>\<open>int32_t\<close> array holds as -2147483648; that is no index into the map, and the entry the
  map has at \<open>nat\<close> of it is -1, not the original identifier.
\<close>

theorem renumber_round_trip_broken_on_32bit_path:
  "fst (gdf_renumber_vertices all_succeed (id_column GDF_INT32 big_src)
          (id_column GDF_INT32 big_dst) unset_column unset_column unset_column) = GDF_SUCCESS
   \<and> sized_buf (renumbered_src
          (gdf_renumber_vertices all_succeed (id_column GDF_INT32 big_src)
             (id_column GDF_INT32 big_dst) unset_column unset_column unset_column)) ! 0 = 0
   \<and> size_field (numbering_map_of
          (gdf_renumber_vertices all_succeed (id_column GDF_INT32 big_src)
             (id_column GDF_INT32 big_dst) unset_column unset_column unset_column))
       = - 2147483648
   \<and> fst (gdf_renumber_vertices all_succeed (id_column GDF_INT32 wide_src)
          (id_column GDF_INT32 wide_dst) unset_column unset_column unset_column) = GDF_SUCCESS
   \<and> buf (id_column GDF_INT32 wide_dst) ! 2147483646 = 2147483647
   \<and> sized_buf (renumbered_dst
          (gdf_renumber_vertices all_succeed (id_column GDF_INT32 wide_src)
             (id_column GDF_INT32 wide_dst) unset_column unset_column unset_column))
        ! 2147483646 = - 2147483648
   \<and> sized_buf (numbering_map_of
          (gdf_renumber_vertices all_succeed (id_column GDF_INT32 wide_src)
             (id_column GDF_INT32 wide_dst) unset_column unset_column unset_column))
        ! nat (- 2147483648) = - 1"
  by (simp add: renumber_32_big renumber_32_wide renumbered_src_def renumbered_dst_def
      numbering_map_of_def sized_view dense_big_src_nth dense_wide_dst_nth buf_id_column
      nth_wide_dst numbering_wide_first to_int32_values)

text \<open>
  C4, what the code does. On the 32-bit path the dense ids leave the sorted order above
  the ceiling: of the identifiers 1 and 2147483647 in the destination array, the smaller
  one gets the dense id 2 and the larger one the dense id -2147483648.
\<close>

theorem renumber_order_broken_on_32bit_path:
  "fst (gdf_renumber_vertices all_succeed (id_column GDF_INT32 wide_src)
          (id_column GDF_INT32 wide_dst) unset_column unset_column unset_column) = GDF_SUCCESS
   \<and> buf (id_column GDF_INT32 wide_dst) ! 0 = 1
   \<and> buf (id_column GDF_INT32 wide_dst) ! 2147483646 = 2147483647
   \<and> sized_buf (renumbered_dst
          (gdf_renumber_vertices all_succeed (id_column GDF_INT32 wide_src)
             (id_column GDF_INT32 wide_dst) unset_column unset_column unset_column)) ! 0 = 2
   \<and> sized_buf (renumbered_dst
          (gdf_renumber_vertices all_succeed (id_column GDF_INT32 wide_src)
             (id_column GDF_INT32 wide_dst) unset_column unset_column unset_column))
        ! 2147483646 = - 2147483648"
  by (simp add: renumber_32_wide renumbered_dst_def sized_view dense_wide_dst_nth buf_id_column
      nth_wide_dst to_int32_values)

section \<open>Renumbering below the ceiling\<close>

text \<open>With at most 2147483647 distinct identifiers a successful call has the round trip,
  and with at most 2147483648 the dense id of an identifier is the number of distinct
  identifiers smaller than it; the scenario with the identifiers 10, 30 and 40 is an
  instance.\<close>

lemma gdf_renumber_vertices_success:
  assumes "gdf_renumber_vertices rmm src dst a b c = (GDF_SUCCESS, sr, dr, nm)"
  shows "sized_buf nm = numbering (buf src) (buf dst)"
    and "sized_buf sr = map (\<lambda>v. to_int32 (int (dense_id (sized_buf nm) v))) (buf src)"
    and "sized_buf dr = map (\<lambda>v. to_int32 (int (dense_id (sized_buf nm) v))) (buf dst)"
    and "size_field nm = to_int32 (int (card (set (buf src) \<union> set (buf dst))))"
    and "col_size src = col_size dst"
  using assms
  by (auto simp: gdf_renumber_vertices_def renumber_vertices_def Let_def col_size_def
      gdf_column_view_sized_def sized_buf_def new_size_card split: if_splits)

lemma renumber_round_trip_below_ceiling:
  assumes run: "gdf_renumber_vertices rmm src dst a b c = (GDF_SUCCESS, sr, dr, nm)"
    and few: "card (set (buf src) \<union> set (buf dst)) \<le> 2147483647"
  shows "size_field nm = int (length (sized_buf nm))"
    and "list_all (\<lambda>d. 0 \<le> d \<and> d < size_field nm) (sized_buf sr @ sized_buf dr)"
    and "map (\<lambda>d. sized_buf nm ! nat d) (sized_buf sr) = buf src"
    and "map (\<lambda>d. sized_buf nm ! nat d) (sized_buf dr) = buf dst"
proof -
  note r = gdf_renumber_vertices_success [OF run]
  let ?m = "sized_buf nm"
  have len: "length ?m = card (set (buf src) \<union> set (buf dst))" by (simp add: r(1) new_size_card)
  have m: "set ?m = set (buf src) \<union> set (buf dst)" by (simp add: r(1) numbering_set)
  show sz: "size_field nm = int (length ?m)"
    using few by (simp add: r(4) len to_int32_small)
  have id: "to_int32 (int (dense_id ?m v)) = int (dense_id ?m v)"
    and lt: "dense_id ?m v < length ?m" and inv: "?m ! dense_id ?m v = v"
    if "v \<in> set (buf src) \<union> set (buf dst)" for v
  proof -
    from that m have v: "v \<in> set ?m" by simp
    show lt: "dense_id ?m v < length ?m" using v by (rule dense_id_less)
    show "?m ! dense_id ?m v = v" using v by (rule dense_id_nth)
    from lt len few show "to_int32 (int (dense_id ?m v)) = int (dense_id ?m v)"
      by (intro to_int32_small) simp_all
  qed
  show "list_all (\<lambda>d. 0 \<le> d \<and> d < size_field nm) (sized_buf sr @ sized_buf dr)"
    unfolding r(2,3) sz by (auto simp: list_all_iff id lt)
  show "map (\<lambda>d. ?m ! nat d) (sized_buf sr) = buf src"
    unfolding r(2) by (simp add: id inv map_idI)
  show "map (\<lambda>d. ?m ! nat d) (sized_buf dr) = buf dst"
    unfolding r(3) by (simp add: id inv map_idI)
qed

lemma renumber_sorted_order_below_ceiling:
  assumes run: "gdf_renumber_vertices rmm src dst a b c = (GDF_SUCCESS, sr, dr, nm)"
    and few: "card (set (buf src) \<union> set (buf dst)) \<le> 2147483648"
  shows "sorted (sized_buf nm)" and "distinct (sized_buf nm)"
    and "set (sized_buf nm) = set (buf src) \<union> set (buf dst)"
    and "sized_buf sr = map (\<lambda>v. int (card {y \<in> set (buf src) \<union> set (buf dst). y < v})) (buf src)"
    and "sized_buf dr = map (\<lambda>v. int (card {y \<in> set (buf src) \<union> set (buf dst). y < v})) (buf dst)"
proof -
  note r = gdf_renumber_vertices_success [OF run]
  let ?m = "sized_buf nm"
  show s: "sorted ?m" and d: "distinct ?m"
    by (simp_all add: r(1) numbering_sorted numbering_distinct)
  show m: "set ?m = set (buf src) \<union> set (buf dst)" by (simp add: r(1) numbering_set)
  have len: "length ?m = card (set (buf src) \<union> set (buf dst))" by (simp add: r(1) new_size_card)
  have rank: "to_int32 (int (dense_id ?m v)) = int (card {y \<in> set (buf src) \<union> set (buf dst). y < v})"
    if "v \<in> set (buf src) \<union> set (buf dst)" for v
  proof -
    from that m have v: "v \<in> set ?m" by simp
    have "dense_id ?m v < length ?m" using v by (rule dense_id_less)
    with len few have "to_int32 (int (dense_id ?m v)) = int (dense_id ?m v)"
      by (intro to_int32_small) simp_all
    then show ?thesis using dense_id_rank [OF s d v] m by simp
  qed
  show "sized_buf sr = map (\<lambda>v. int (card {y \<in> set (buf src) \<union> set (buf dst). y < v})) (buf src)"
    unfolding r(2) by (rule map_cong) (simp_all add: rank)
  show "sized_buf dr = map (\<lambda>v. int (card {y \<in> set (buf src) \<union> set (buf dst). y < v})) (buf dst)"
    unfolding r(3) by (rule map_cong) (simp_all add: rank)
qed

lemma renumber_scenario:
  "gdf_renumber_vertices all_succeed (int32_column [10, 10, 30, 40]) (int32_column [30, 40, 10, 10])
       a b c
     = (GDF_SUCCESS, int32_column_sized [0, 0, 1, 2], int32_column_sized [1, 2, 0, 0],
        int32_column_sized [10, 30, 40])"
  by (simp add: gdf_renumber_vertices_def int32_column_def col_size_def buf_def
      renumber_vertices_def numbering_def gdf_column_view_def all_succeed_def
      gdf_column_view_sized_def int32_column_sized_def to_int32_def)

section \<open>Workers on an empty bucket\<close>

text \<open>
  C9. For a bucket with no vertices the three workers launch no kernel and leave the
  device, its memory and its launch record, as it was; the call is not an error.
\<close>

theorem empty_bucket_launches_nothing:
  assumes "numberOfVertices bucket = 0"
  shows "small_vertex_worker graph bucket op dev = dev
         \<and> medium_vertex_worker graph bucket op dev = dev
         \<and> large_vertex_worker graph bucket op dev = dev"
  using assms
  by (simp add: small_vertex_worker_def medium_vertex_worker_def large_vertex_worker_def)

theorem empty_bucket_launches_nothing_witness:
  "numberOfVertices \<lparr>vertexIds = [], numberOfVertices = 0, ceilLogDegreeEnd = 4\<rparr> = 0
   \<and> small_vertex_worker \<lparr>view_offsets = [0, 1, 2], view_indices = [1, 0]\<rparr>
         \<lparr>vertexIds = [], numberOfVertices = 0, ceilLogDegreeEnd = 4\<rparr>
         (\<lambda>s d m. (s, d) # m) \<lparr>launches = [], memory = []\<rparr>
       = \<lparr>launches = [], memory = []\<rparr>
   \<and> medium_vertex_worker \<lparr>view_offsets = [0, 1, 2], view_indices = [1, 0]\<rparr>
         \<lparr>vertexIds = [], numberOfVertices = 0, ceilLogDegreeEnd = 4\<rparr>
         (\<lambda>s d m. (s, d) # m) \<lparr>launches = [], memory = []\<rparr>
       = \<lparr>launches = [], memory = []\<rparr>
   \<and> large_vertex_worker \<lparr>view_offsets = [0, 1, 2], view_indices = [1, 0]\<rparr>
         \<lparr>vertexIds = [], numberOfVertices = 0, ceilLogDegreeEnd = 4\<rparr>
         (\<lambda>s d m. (s, d) # m) \<lparr>launches = [], memory = []\<rparr>
       = \<lparr>launches = [], memory = []\<rparr>
   \<and> small_vertex_worker \<lparr>view_offsets = [0, 1, 2], view_indices = [1, 0]\<rparr>
         \<lparr>vertexIds = [0, 1], numberOfVertices = 2, ceilLogDegreeEnd = 4\<rparr>
         (\<lambda>s d m. (s, d) # m) \<lparr>launches = [], memory = []\<rparr>
       = \<lparr>launches = [(2, 32)], memory = [(1, 0), (0, 1)]\<rparr>"
proof -
  let ?b = "\<lparr>vertexIds = [], numberOfVertices = 0, ceilLogDegreeEnd = 4\<rparr>"
  let ?g = "\<lparr>view_offsets = [0, 1, 2], view_indices = [1, 0]\<rparr>"
  have h: "numberOfVertices ?b = 0" by simp
  have busy: "small_vertex_worker ?g
         \<lparr>vertexIds = [0, 1], numberOfVertices = 2, ceilLogDegreeEnd = 4\<rparr>
         (\<lambda>s d m. (s, d) # m) \<lparr>launches = [], memory = []\<rparr>
       = \<lparr>launches = [(2, 32)], memory = [(1, 0), (0, 1)]\<rparr>"
    by (simp add: small_vertex_worker_def launch_def block_per_vertex_worker_weightless_def
        edge_range_def)
  from empty_bucket_launches_nothing [OF h, of ?g "\<lambda>s d m. (s, d) # m"
      "\<lparr>launches = [], memory = []\<rparr>"] h busy
  show ?thesis by blast
qed

section \<open>Traversal of the four-cycle\<close>

text \<open>
  C5. On the directed cycle with the edges 0 to 1, 1 to 2, 2 to 3 and 3 to 0, without
  weights, \<^verbatim>\<open>gdf_bfs\<close> from vertex 0 writes the distances 0, 1, 2, 3 and the predecessors
  -1, 0, 1, 2 into the result columns.
\<close>

theorem bfs_four_cycle:
  "gdf_bfs (edge_list_graph [0, 1, 2, 3] [1, 2, 3, 0]) (int32_column [7, 7, 7, 7])
       (int32_column [9, 9, 9, 9]) 0 True
     = Some (GDF_SUCCESS,
             (edge_list_graph [0, 1, 2, 3] [1, 2, 3, 0])
               \<lparr>adjList := Some \<lparr>offsets = int32_column [0, 1, 2, 3, 4],
                                  indices = int32_column [1, 2, 3, 0],
                                  gdf_adj_list.edge_data = None,
                                  gdf_adj_list.ownership = 1\<rparr>\<rparr>,
             int32_column [0, 1, 2, 3], int32_column [- 1, 0, 1, 2])"
  by code_simp

theorem bfs_four_cycle_witness:
  "map_option (\<lambda>r. (fst r, buf (fst (snd (snd r))), buf (snd (snd (snd r)))))
     (gdf_bfs (edge_list_graph [0, 1, 2, 3] [1, 2, 3, 0]) (int32_column [7, 7, 7, 7])
        (int32_column [9, 9, 9, 9]) 0 True)
   = Some (GDF_SUCCESS, [0, 1, 2, 3], [- 1, 0, 1, 2])"
  unfolding bfs_four_cycle by (simp add: int32_column_def buf_def gdf_column_view_def)

section \<open>Rank propagation at the iteration cap\<close>

lemma gdf_pagerank_impl_column:
  assumes cap: "\<And>m e offs inds v al l g t k p. fst (solver m e offs inds v al l g t k p) = 1"
    and run: "gdf_pagerank_impl o2i ht solver graph pagerank alpha tol max_iter has_guess
                = Some (err, graph', pagerank')"
  shows "err \<noteq> GDF_SUCCESS \<and> pagerank' = pagerank"
proof -
  have st: "(case solver m e offs inds v al l g t k p of (status, d_pr) \<Rightarrow> f status d_pr)
            = f 1 (snd (solver m e offs inds v al l g t k p))" for m e offs inds v al l g t k p f
    using cap [of m e offs inds v al l g t k p] by (simp add: case_prod_beta)
  from run show ?thesis
    unfolding gdf_pagerank_impl_def Let_def st
    by (auto split: option.splits if_splits prod.splits)
qed

text \<open>
  C1, what the code does. When the solver reports that the tolerance was not reached
  (status 1), \<^verbatim>\<open>gdf_pagerank\<close> does not return \<open>GDF_SUCCESS\<close> and the caller's column is the
  one that was passed in: the source prints a warning, returns \<open>GDF_CUDA_ERROR\<close> and
  leaves before the values are copied.
\<close>

theorem pagerank_cap_is_hard_failure:
  assumes cap: "\<And>m e offs inds v al l g t k p. fst (solver m e offs inds v al l g t k p) = 1"
    and run: "gdf_pagerank o2i ht solver graph pagerank alpha tol max_iter has_guess
                = Some (err, graph', pagerank')"
  shows "err \<noteq> GDF_SUCCESS \<and> pagerank' = pagerank"
  using run gdf_pagerank_impl_column [OF cap]
  unfolding gdf_pagerank_def
  by (auto split: option.splits if_splits prod.splits)

theorem pagerank_cap_is_hard_failure_witness:
  "fst (capped_solver 2 2 [0, 1, 2] [1, 0] [1, 1] (85 / 100) [0, 0] False 0 100 None) = 1
   \<and> gdf_pagerank sources_of_rows uniform_matrix capped_solver (edge_list_graph [0, 1] [1, 0])
         (float32_column [0, 0]) (85 / 100) 0 100 False
       = Some (GDF_CUDA_ERROR,
               (edge_list_graph [0, 1] [1, 0])
                 \<lparr>adjList := Some \<lparr>offsets = int32_column [0, 1, 2],
                                    indices = int32_column [1, 0],
                                    gdf_adj_list.edge_data = None,
                                    gdf_adj_list.ownership = 1\<rparr>,
                   transposedAdjList := Some \<lparr>offsets = int32_column [0, 1, 2],
                                    indices = int32_column [1, 0],
                                    gdf_adj_list.edge_data = None,
                                    gdf_adj_list.ownership = 1\<rparr>\<rparr>,
               float32_column [0, 0])"
proof -
  let ?g = "edge_list_graph [0, 1] [1, 0]"
  let ?g' = "?g\<lparr>adjList := Some \<lparr>offsets = int32_column [0, 1, 2],
                                    indices = int32_column [1, 0],
                                    gdf_adj_list.edge_data = None,
                                    gdf_adj_list.ownership = 1\<rparr>,
                   transposedAdjList := Some \<lparr>offsets = int32_column [0, 1, 2],
                                    indices = int32_column [1, 0],
                                    gdf_adj_list.edge_data = None,
                                    gdf_adj_list.ownership = 1\<rparr>\<rparr>"
  have cap: "\<And>m e offs inds v al l g t k p. fst (capped_solver m e offs inds v al l g t k p) = 1"
    by (simp add: capped_solver_def)
  have run: "gdf_pagerank sources_of_rows uniform_matrix capped_solver ?g
            (float32_column [0, 0]) (85 / 100) 0 100 False
          = Some (GDF_CUDA_ERROR, ?g', float32_column [0, 0])"
    by code_simp
  from pagerank_cap_is_hard_failure [OF cap run] run cap show ?thesis by simp
qed

section \<open>The transposed adjacency list\<close>

lemma gdf_add_transpose_impl_eq: "gdf_add_transpose_impl graph = gdf_add_transposed_adj_list_impl graph"
  unfolding gdf_add_transpose_impl_def gdf_add_transposed_adj_list_impl_def by (rule refl)

lemma gdf_add_transpose_eq: "gdf_add_transpose o2i graph = gdf_add_transposed_adj_list o2i graph"
  unfolding gdf_add_transpose_def gdf_add_transposed_adj_list_def gdf_add_transpose_impl_eq
  by (rule refl)

lemma transposed_impl_direct:
  assumes el: "edgeList graph = Some el" and absent: "transposedAdjList graph = None"
    and run: "gdf_add_transposed_adj_list_impl graph = Some (GDF_SUCCESS, graph')"
  shows "\<exists>offs inds ws t.
           converter_on_swapped el = Some (offs, inds, ws)
           \<and> graph' = graph\<lparr>transposedAdjList := Some t\<rparr>
           \<and> buf (offsets t) = offs \<and> buf (indices t) = inds
           \<and> map_option buf (gdf_adj_list.edge_data t) = ws"
proof (cases "gdf_edge_list.edge_data el")
  case None
  let ?t = "\<lambda>r. \<lparr>offsets = gdf_column_view (Some (rowOffsets r)) None (dtype (src_indices el)),
                  indices = gdf_column_view (Some (colIndices r)) None (dtype (src_indices el)),
                  gdf_adj_list.edge_data = None, gdf_adj_list.ownership = 1\<rparr>"
  from run el absent None obtain r where
    conv: "ConvertCOOtoCSR (buf (dest_indices el)) (buf (src_indices el))
             (col_size (src_indices el)) = Some (GDF_SUCCESS, r)"
    and g: "graph' = graph\<lparr>transposedAdjList := Some (?t r)\<rparr>"
    by (auto simp: gdf_add_transposed_adj_list_impl_def Let_def split: option.splits if_splits)
  have c: "converter_on_swapped el = Some (rowOffsets r, colIndices r, None)"
    by (simp add: converter_on_swapped_def None conv)
  have "buf (offsets (?t r)) = rowOffsets r" "buf (indices (?t r)) = colIndices r"
    "map_option buf (gdf_adj_list.edge_data (?t r)) = None"
    by (simp_all add: buf_def gdf_column_view_def)
  with c g show ?thesis by blast
next
  case (Some ed)
  let ?t = "\<lambda>r. \<lparr>offsets = gdf_column_view (Some (rowOffsets r)) None (dtype (src_indices el)),
                  indices = gdf_column_view (Some (colIndices r)) None (dtype (src_indices el)),
                  gdf_adj_list.edge_data =
                    Some (gdf_column_view (Some (edgeWeights r)) None (dtype ed)),
                  gdf_adj_list.ownership = 1\<rparr>"
  from run el absent Some obtain r where
    conv: "ConvertCOOtoCSR_weighted (buf (dest_indices el)) (buf (src_indices el)) (buf ed)
             (col_size (src_indices el)) = Some (GDF_SUCCESS, r)"
    and g: "graph' = graph\<lparr>transposedAdjList := Some (?t r)\<rparr>"
    by (auto simp: gdf_add_transposed_adj_list_impl_def Let_def split: option.splits if_splits)
  have c: "converter_on_swapped el = Some (rowOffsets r, colIndices r, Some (edgeWeights r))"
    by (simp add: converter_on_swapped_def Some conv)
  have "buf (offsets (?t r)) = rowOffsets r" "buf (indices (?t r)) = colIndices r"
    "map_option buf (gdf_adj_list.edge_data (?t r)) = Some (edgeWeights r)"
    by (simp_all add: buf_def gdf_column_view_def)
  with c g show ?thesis by blast
qed

lemma transposed_direct:
  assumes el: "edgeList graph = Some el" and absent: "transposedAdjList graph = None"
    and run: "gdf_add_transposed_adj_list o2i graph = Some (GDF_SUCCESS, graph')"
  shows "\<exists>offs inds ws t.
           converter_on_swapped el = Some (offs, inds, ws)
           \<and> graph' = graph\<lparr>transposedAdjList := Some t\<rparr>
           \<and> buf (offsets t) = offs \<and> buf (indices t) = inds
           \<and> map_option buf (gdf_adj_list.edge_data t) = ws"
proof -
  from el run have "gdf_add_transposed_adj_list_impl graph = Some (GDF_SUCCESS, graph')"
    by (auto simp: gdf_add_transposed_adj_list_def split: option.splits if_splits)
  from transposed_impl_direct [OF el absent this] show ?thesis .
qed

lemma transposed_as_rows_of_swapped:
  assumes el: "edgeList graph = Some el" and absent: "transposedAdjList graph = None"
    and sizes: "col_size (src_indices el) = col_size (dest_indices el)"
    and run: "gdf_add_transposed_adj_list o2i graph = Some (GDF_SUCCESS, graph')"
  shows "\<exists>t. graph' = graph\<lparr>transposedAdjList := Some t\<rparr>
           \<and> gdf_add_adj_list \<lparr>edgeList = Some (swap_edges el), adjList = None,
                                transposedAdjList = None\<rparr>
               = Some (GDF_SUCCESS, \<lparr>edgeList = Some (swap_edges el), adjList = Some t,
                                     transposedAdjList = None\<rparr>)"
proof -
  from el run have dt: "dtype (src_indices el) = GDF_INT32" "dtype (dest_indices el) = GDF_INT32"
    and impl: "gdf_add_transposed_adj_list_impl graph = Some (GDF_SUCCESS, graph')"
    by (auto simp: gdf_add_transposed_adj_list_def split: option.splits if_splits)
  from el run have ed: "gdf_edge_list.edge_data el = Some ed \<Longrightarrow>
      dtype ed = GDF_FLOAT32 \<or> dtype ed = GDF_FLOAT64" for ed
    by (auto simp: gdf_add_transposed_adj_list_def split: option.splits if_splits)
  show ?thesis
  proof (cases "gdf_edge_list.edge_data el")
    case None
    with impl el absent dt sizes show ?thesis
      by (auto simp: gdf_add_transposed_adj_list_impl_def gdf_add_adj_list_def
          gdf_add_adj_list_impl_def swap_edges_def Let_def split: option.splits if_splits)
  next
    case (Some ed)
    with impl el absent dt sizes ed [OF Some] show ?thesis
      by (auto simp: gdf_add_transposed_adj_list_impl_def gdf_add_adj_list_def
          gdf_add_adj_list_impl_def swap_edges_def Let_def split: option.splits if_splits)
  qed
qed

lemma pagerank_impl_requests_transpose:
  assumes absent: "transposedAdjList graph = None"
    and run: "gdf_pagerank_impl o2i ht solver graph pagerank alpha tol max_iter has_guess
                = Some (err, graph', pagerank')"
    and reached: "err = GDF_SUCCESS \<or> err = GDF_CUDA_ERROR"
  shows "\<exists>e. gdf_add_transpose o2i graph = Some (e, graph') \<and> transposedAdjList graph' \<noteq> None"
  using assms unfolding gdf_pagerank_impl_def Let_def
  by (auto split: option.splits if_splits prod.splits)

text \<open>
  C8. For a graph that holds an edge list and no transposed adjacency list,
  a successful \<^verbatim>\<open>gdf_add_transposed_adj_list\<close> attaches exactly the offsets, indices and
  weights the converter returns for the edge list with the source and destination arrays
  swapped, the same rows \<^verbatim>\<open>gdf_add_adj_list\<close> builds from the swapped edge list; nothing
  else of the graph changes. \<^verbatim>\<open>gdf_pagerank_impl\<close> asks for this itself: when the transposed
  list is absent and the call gets as far as the solver, the graph it returns is the one
  \<^verbatim>\<open>gdf_add_transpose\<close> returns, which is the same function.
\<close>

theorem transposed_list_is_converter_on_swapped:
  "(edgeList graph = Some el \<and> transposedAdjList graph = None
      \<and> gdf_add_transposed_adj_list o2i graph = Some (GDF_SUCCESS, graph') \<longrightarrow>
      (\<exists>offs inds ws t.
          converter_on_swapped el = Some (offs, inds, ws)
          \<and> graph' = graph\<lparr>transposedAdjList := Some t\<rparr>
          \<and> buf (offsets t) = offs \<and> buf (indices t) = inds
          \<and> map_option buf (gdf_adj_list.edge_data t) = ws
          \<and> (col_size (src_indices el) = col_size (dest_indices el) \<longrightarrow>
                gdf_add_adj_list \<lparr>edgeList = Some (swap_edges el), adjList = None,
                                   transposedAdjList = None\<rparr>
                  = Some (GDF_SUCCESS, \<lparr>edgeList = Some (swap_edges el), adjList = Some t,
                                        transposedAdjList = None\<rparr>))))
   \<and> (transposedAdjList g = None
        \<and> gdf_pagerank_impl o2i ht solver g pagerank alpha tol max_iter has_guess
            = Some (err, g', pagerank')
        \<and> (err = GDF_SUCCESS \<or> err = GDF_CUDA_ERROR) \<longrightarrow>
        gdf_add_transpose o2i g = gdf_add_transposed_adj_list o2i g
        \<and> (\<exists>e. gdf_add_transposed_adj_list o2i g = Some (e, g'))
        \<and> transposedAdjList g' \<noteq> None)"
proof (intro conjI impI)
  assume a: "edgeList graph = Some el \<and> transposedAdjList graph = None
      \<and> gdf_add_transposed_adj_list o2i graph = Some (GDF_SUCCESS, graph')"
  then have el: "edgeList graph = Some el" and absent: "transposedAdjList graph = None"
    and run: "gdf_add_transposed_adj_list o2i graph = Some (GDF_SUCCESS, graph')" by simp_all
  from transposed_direct [OF el absent run] obtain offs inds ws t where
    d: "converter_on_swapped el = Some (offs, inds, ws)"
       "graph' = graph\<lparr>transposedAdjList := Some t\<rparr>"
       "buf (offsets t) = offs" "buf (indices t) = inds"
       "map_option buf (gdf_adj_list.edge_data t) = ws" by blast
  have "gdf_add_adj_list \<lparr>edgeList = Some (swap_edges el), adjList = None,
                           transposedAdjList = None\<rparr>
          = Some (GDF_SUCCESS, \<lparr>edgeList = Some (swap_edges el), adjList = Some t,
                                transposedAdjList = None\<rparr>)"
    if sizes: "col_size (src_indices el) = col_size (dest_indices el)"
  proof -
    from transposed_as_rows_of_swapped [OF el absent sizes run] obtain t' where
      t': "graph' = graph\<lparr>transposedAdjList := Some t'\<rparr>"
      and rows: "gdf_add_adj_list \<lparr>edgeList = Some (swap_edges el), adjList = None,
                                    transposedAdjList = None\<rparr>
          = Some (GDF_SUCCESS, \<lparr>edgeList = Some (swap_edges el), adjList = Some t',
                                transposedAdjList = None\<rparr>)" by blast
    from t' d(2) have "transposedAdjList (graph\<lparr>transposedAdjList := Some t'\<rparr>)
                       = transposedAdjList (graph\<lparr>transposedAdjList := Some t\<rparr>)" by simp
    then have "t' = t" by simp
    with rows show ?thesis by simp
  qed
  with d show "\<exists>offs inds ws t.
          converter_on_swapped el = Some (offs, inds, ws)
          \<and> graph' = graph\<lparr>transposedAdjList := Some t\<rparr>
          \<and> buf (offsets t) = offs \<and> buf (indices t) = inds
          \<and> map_option buf (gdf_adj_list.edge_data t) = ws
          \<and> (col_size (src_indices el) = col_size (dest_indices el) \<longrightarrow>
                gdf_add_adj_list \<lparr>edgeList = Some (swap_edges el), adjList = None,
                                   transposedAdjList = None\<rparr>
                  = Some (GDF_SUCCESS, \<lparr>edgeList = Some (swap_edges el), adjList = Some t,
                                        transposedAdjList = None\<rparr>))"
    by blast
next
  assume b: "transposedAdjList g = None
        \<and> gdf_pagerank_impl o2i ht solver g pagerank alpha tol max_iter has_guess
            = Some (err, g', pagerank')
        \<and> (err = GDF_SUCCESS \<or> err = GDF_CUDA_ERROR)"
  show "gdf_add_transpose o2i g = gdf_add_transposed_adj_list o2i g"
    by (rule gdf_add_transpose_eq)
  from b have b1: "transposedAdjList g = None"
    and b2: "gdf_pagerank_impl o2i ht solver g pagerank alpha tol max_iter has_guess
              = Some (err, g', pagerank')"
    and b3: "err = GDF_SUCCESS \<or> err = GDF_CUDA_ERROR" by simp_all
  have "\<exists>e. gdf_add_transpose o2i g = Some (e, g') \<and> transposedAdjList g' \<noteq> None"
    using b1 b2 b3 by (rule pagerank_impl_requests_transpose)
  then show "\<exists>e. gdf_add_transposed_adj_list o2i g = Some (e, g')"
    and "transposedAdjList g' \<noteq> None"
    by (auto simp: gdf_add_transpose_eq)
qed

theorem transposed_list_is_converter_on_swapped_witness:
  "edgeList (edge_list_graph [0, 0, 1] [1, 2, 2]) = Some example_edges
   \<and> transposedAdjList (edge_list_graph [0, 0, 1] [1, 2, 2]) = None
   \<and> gdf_add_transposed_adj_list sources_of_rows (edge_list_graph [0, 0, 1] [1, 2, 2])
       = Some (GDF_SUCCESS,
               (edge_list_graph [0, 0, 1] [1, 2, 2])\<lparr>transposedAdjList := Some example_transposed\<rparr>)
   \<and> converter_on_swapped example_edges = Some ([0, 0, 1, 3], [0, 0, 1], None)
   \<and> gdf_add_adj_list \<lparr>edgeList = Some (swap_edges example_edges), adjList = None,
                         transposedAdjList = None\<rparr>
       = Some (GDF_SUCCESS, \<lparr>edgeList = Some (swap_edges example_edges),
                             adjList = Some example_transposed, transposedAdjList = None\<rparr>)
   \<and> gdf_pagerank_impl sources_of_rows uniform_matrix converged_solver
         (edge_list_graph [0, 0, 1] [1, 2, 2]) (float32_column [0, 0, 0]) (85 / 100) (1 / 10000)
         100 False
       = Some (GDF_SUCCESS,
               (edge_list_graph [0, 0, 1] [1, 2, 2])\<lparr>transposedAdjList := Some example_transposed\<rparr>,
               float32_column [1 / 3, 1 / 3, 1 / 3])"
proof -
  let ?g = "edge_list_graph [0, 0, 1] [1, 2, 2]"
  let ?g' = "?g\<lparr>transposedAdjList := Some example_transposed\<rparr>"
  have el: "edgeList ?g = Some example_edges" by code_simp
  have absent: "transposedAdjList ?g = None" by code_simp
  have run: "gdf_add_transposed_adj_list sources_of_rows ?g = Some (GDF_SUCCESS, ?g')"
    by code_simp
  have sizes: "col_size (src_indices example_edges) = col_size (dest_indices example_edges)"
    by code_simp
  have pr: "gdf_pagerank_impl sources_of_rows uniform_matrix converged_solver ?g
         (float32_column [0, 0, 0]) (85 / 100) (1 / 10000) 100 False
       = Some (GDF_SUCCESS, ?g', float32_column [1 / 3, 1 / 3, 1 / 3])"
    by code_simp
  note t = transposed_list_is_converter_on_swapped [of ?g example_edges sources_of_rows ?g' ?g
      uniform_matrix converged_solver "float32_column [0, 0, 0]" "85 / 100" "1 / 10000" 100 False
      GDF_SUCCESS ?g' "float32_column [1 / 3, 1 / 3, 1 / 3]"]
  from t el absent run obtain offs inds ws t where
    d: "converter_on_swapped example_edges = Some (offs, inds, ws)"
       "?g' = ?g\<lparr>transposedAdjList := Some t\<rparr>"
       "buf (offsets t) = offs" "buf (indices t) = inds"
       "map_option buf (gdf_adj_list.edge_data t) = ws"
    and rows: "col_size (src_indices example_edges) = col_size (dest_indices example_edges) \<longrightarrow>
                gdf_add_adj_list \<lparr>edgeList = Some (swap_edges example_edges), adjList = None,
                                   transposedAdjList = None\<rparr>
                  = Some (GDF_SUCCESS, \<lparr>edgeList = Some (swap_edges example_edges),
                                        adjList = Some t, transposedAdjList = None\<rparr>)"
    by blast
  from d(2) have "transposedAdjList ?g' = transposedAdjList (?g\<lparr>transposedAdjList := Some t\<rparr>)"
    by simp
  then have tt: "t = example_transposed" by simp
  have c: "converter_on_swapped example_edges = Some ([0, 0, 1, 3], [0, 0, 1], None)"
    using d(1,3,4,5) unfolding tt
    by (simp add: example_transposed_def int32_column_def buf_def gdf_column_view_def)
  from rows sizes tt el absent run c pr show ?thesis by simp
qed

end
